theory Spec2Isabelle
  imports Complex_Main "HOL-Library.Multiset"
begin

section \<open>Gated graph transformer network: loss construction and aggregation\<close>

text \<open>
  A shallow embedding of \<^verbatim>\<open>model.py\<close> (class \<^verbatim>\<open>Model\<close>: constructor, \<^verbatim>\<open>_build\<close>,
  \<^verbatim>\<open>_iter_fn\<close>) and of \<^verbatim>\<open>transformation_modules/aggregate_representation.py\<close>.

  Conventions.
  \<^item> A tensor is a nested list, outermost axis first; the batch axis is axis 0 as in the
    source. \<^verbatim>\<open>floatX\<close> values are real numbers, so rounding, overflow and NaN are outside
    the model; \<open>T.log\<close> is \<open>ln\<close>, whose argument is positive wherever a strength or
    probability lies in \<open>[0, 1]\<close> and \<open>EPSILON\<close> is positive.
  \<^item> \<^verbatim>\<open>util.EPSILON\<close> is not among the sources; it is the parameter \<open>eps\<close>.
  \<^item> An operation on tensors whose shapes do not fit raises in Theano; the model returns
    \<open>Inl\<close> of an error instead.
\<close>

subsection \<open>Data model\<close>

type_synonym vec = "real list"
type_synonym mat = "real list list"
type_synonym tensor3 = "real list list list"
type_synonym tensor4 = "real list list list list"
type_synonym tensor5 = "real list list list list list"

datatype error = ShapeError | TypeError | AssertionError | NotFinite | ConstructorError

subsection \<open>Permutations of the candidate slots\<close>

text \<open>
  \<^verbatim>\<open>itertools.permutations(xs)\<close> yields the permutations of \<open>xs\<close> in lexicographic order
  of positions: first every permutation that starts with \<open>xs[0]\<close>, then those starting with
  \<open>xs[1]\<close>, and so on; for the empty list it yields one empty tuple.
\<close>

primrec perms_of :: "nat \<Rightarrow> 'a list \<Rightarrow> 'a list list" where
  "perms_of 0 xs = [[]]"
| "perms_of (Suc n) xs =
     concat (map (\<lambda>i. map ((#) (xs ! i)) (perms_of n (take i xs @ drop (Suc i) xs)))
                 [0..<length xs])"

definition permutations :: "'a list \<Rightarrow> 'a list list" where
  "permutations xs = perms_of (length xs) xs"

text \<open>The permutations of the slot indices \<open>0, \<dots>, k - 1\<close>, as a set (the spec's words).\<close>

definition slot_permutations :: "nat \<Rightarrow> nat list set" where
  "slot_permutations k = {p. mset p = mset [0..<k]}"

subsection \<open>New-node matching loss (\<^verbatim>\<open>_iter_fn\<close>, lines 220--243)\<close>

text \<open>\<^verbatim>\<open>x[:, perm_idxs]\<close>: advanced indexing on axis 1 with an index matrix.\<close>

definition index_axis1 :: "'a list list \<Rightarrow> nat list list \<Rightarrow> 'a list list list" where
  "index_axis1 x idxs = map (\<lambda>row. map (\<lambda>p. map (\<lambda>i. row ! i) p) idxs) x"

text \<open>
  \<^verbatim>\<open>strength_ll\<close>, shape (batch, permutation, slot). \<^verbatim>\<open>ext_new_str\<close> is \<^verbatim>\<open>new_strengths\<close>
  with a broadcast axis 1, so every permutation meets the same row of candidates.
\<close>

definition strength_ll :: "real \<Rightarrow> tensor3 \<Rightarrow> mat \<Rightarrow> tensor3" where
  "strength_ll eps permuted_correct_str new_strengths =
     map2 (\<lambda>pc ns. map (\<lambda>pcp.
             map2 (\<lambda>t s. t * ln (s + eps) + (1 - t) * ln (1 - s + eps)) pcp ns) pc)
          permuted_correct_str new_strengths"

text \<open>\<^verbatim>\<open>ids_ll\<close>, shape (batch, permutation, slot, id).\<close>

definition ids_ll :: "real \<Rightarrow> tensor4 \<Rightarrow> tensor3 \<Rightarrow> tensor4" where
  "ids_ll eps permuted_correct_ids new_ids =
     map2 (\<lambda>pc ni. map (\<lambda>pcp.
             map2 (\<lambda>tv sv. map2 (\<lambda>t s. t * ln (s + eps)) tv sv) pcp ni) pc)
          permuted_correct_ids new_ids"

text \<open>\<^verbatim>\<open>reduced_perm_lls = T.sum(strength_ll, axis=2) + T.sum(ids_ll, axis=[2,3])\<close>.\<close>

definition reduced_perm_lls :: "tensor3 \<Rightarrow> tensor4 \<Rightarrow> mat" where
  "reduced_perm_lls sll ill =
     map2 (\<lambda>sl il. map2 (\<lambda>s i. sum_list s + sum_list (map sum_list i)) sl il) sll ill"

text \<open>
  Modelled from the spec: \<^verbatim>\<open>util.reduce_log_sum\<close> is not among the sources; the spec calls
  it the log-sum-exp over the permutation axis.
\<close>

definition reduce_log_sum :: "vec \<Rightarrow> real" where
  "reduce_log_sum xs = ln (sum_list (map exp xs))"

text \<open>
  \<^verbatim>\<open>T.gammaln\<close> at an integer argument \<open>m \<ge> 1\<close>: \<open>ln \<Gamma>(m) = ln ((m - 1)!)\<close>. At \<open>m \<le> 0\<close> the
  Gamma function has a pole and Theano returns infinity; \<open>node_loss\<close> below tests for that
  case before it calls \<open>gammaln\<close>.
\<close>

definition gammaln :: "int \<Rightarrow> real" where
  "gammaln m = ln (fact (nat (m - 1)))"

text \<open>
  The shapes the tensor expressions of lines 222--229 need: equal batch sizes, \<open>k\<close> candidate
  slots, at least \<open>k\<close> ground-truth slots for the indexing, and id vectors of one width.
\<close>

definition node_shapes_ok :: "nat \<Rightarrow> mat \<Rightarrow> tensor3 \<Rightarrow> mat \<Rightarrow> tensor3 \<Rightarrow> bool" where
  "node_shapes_ok k new_strengths new_ids correct_new_strengths correct_new_node_ids \<longleftrightarrow>
     length new_ids = length new_strengths \<and>
     list_all2 (\<lambda>cr nr. length nr = k \<and> k \<le> length cr) correct_new_strengths new_strengths \<and>
     list_all2 (\<lambda>cr nr. length nr = k \<and> k \<le> length cr \<and>
                  list_all (\<lambda>c. list_all (\<lambda>n. length c = length n) nr) (take k cr))
               correct_new_node_ids new_ids"

text \<open>
  The node loss of one supervised step, one value per batch element. With
  \<open>new_nodes_per_iter = 0\<close> the index array \<^verbatim>\<open>np.array([()])\<close> is an empty float array,
  which cannot index a tensor.
\<close>

definition node_loss ::
  "bool \<Rightarrow> nat \<Rightarrow> real \<Rightarrow> mat \<Rightarrow> tensor3 \<Rightarrow> int list \<Rightarrow> mat \<Rightarrow> tensor3 \<Rightarrow> error + vec" where
  "node_loss best_node_match_only new_nodes_per_iter eps new_strengths new_ids
       correct_num_new_nodes correct_new_strengths correct_new_node_ids =
    (let perm_idxs = permutations [0..<new_nodes_per_iter] in
     if new_nodes_per_iter = 0 then Inl TypeError
     else if \<not> node_shapes_ok new_nodes_per_iter new_strengths new_ids
                 correct_new_strengths correct_new_node_ids then Inl ShapeError
     else
       let permuted_correct_str = index_axis1 correct_new_strengths perm_idxs;
           permuted_correct_ids = index_axis1 correct_new_node_ids perm_idxs;
           sll = strength_ll eps permuted_correct_str new_strengths;
           ill = ids_ll eps permuted_correct_ids new_ids;
           reduced = reduced_perm_lls sll ill
       in if best_node_match_only then Inr (map (\<lambda>r. - Max (set r)) reduced)
          else if length correct_num_new_nodes \<noteq> length new_strengths then Inl ShapeError
          else if \<exists>c \<in> set correct_num_new_nodes. int new_nodes_per_iter - c + 1 \<le> 0
               then Inl NotFinite
          else Inr (map2 (\<lambda>r c. - (reduce_log_sum r - gammaln (int new_nodes_per_iter - c + 1)))
                      reduced correct_num_new_nodes))"



subsection \<open>Graph state\<close>

text \<open>
  Modelled from the spec: the class \<^verbatim>\<open>GraphState\<close> of \<^verbatim>\<open>graph_state.py\<close> is not among
  the sources. The spec gives its fields: \<open>node_strengths\<close> of shape (batch, n_nodes),
  \<open>node_ids\<close> of shape (batch, n_nodes, num_node_ids), \<open>node_states\<close> of shape
  (batch, n_nodes, node_state_size) and \<open>edge_strengths\<close> of shape
  (batch, n_nodes, n_nodes, num_edge_types).
\<close>

record gstate =
  node_strengths :: mat
  node_ids :: tensor3
  node_states :: tensor3
  edge_strengths :: tensor4

definition n_batch :: "gstate \<Rightarrow> nat" where
  "n_batch g = length (node_strengths g)"

definition n_nodes :: "gstate \<Rightarrow> nat" where
  "n_nodes g = (case node_strengths g of [] \<Rightarrow> 0 | r # _ \<Rightarrow> length r)"

subsection \<open>Edge loss (\<^verbatim>\<open>_iter_fn\<close>, lines 266--274)\<close>

text \<open>\<^verbatim>\<open>correct_edges[:,:gstate.n_nodes,:gstate.n_nodes,:]\<close>.\<close>

definition crop_edges :: "nat \<Rightarrow> tensor4 \<Rightarrow> tensor4" where
  "crop_edges n correct_edges = map (\<lambda>b. map (take n) (take n b)) correct_edges"

text \<open>\<^verbatim>\<open>edge_lls\<close>, elementwise on two tensors of shape (batch, n, n, edge type).\<close>

definition edge_lls :: "real \<Rightarrow> tensor4 \<Rightarrow> tensor4 \<Rightarrow> tensor4" where
  "edge_lls eps cropped_correct_edges es =
     map2 (map2 (map2 (map2 (\<lambda>c e. c * ln (e + eps) + (1 - c) * ln (1 - e + eps)))))
       cropped_correct_edges es"

text \<open>
  Multiplication by \<^verbatim>\<open>mask_src\<close> (the strengths on axis 1, broadcast over axes 2 and 3)
  and by \<^verbatim>\<open>mask_dest\<close> (the strengths on axis 2, broadcast over axes 1 and 3).
\<close>

definition mask_src :: "mat \<Rightarrow> tensor4 \<Rightarrow> tensor4" where
  "mask_src strengths x = map2 (\<lambda>s xb. map2 (\<lambda>si row. map (map (\<lambda>v. v * si)) row) s xb) strengths x"

definition mask_dest :: "mat \<Rightarrow> tensor4 \<Rightarrow> tensor4" where
  "mask_dest strengths x = map2 (\<lambda>s xb. map (\<lambda>row. map2 (\<lambda>sj cell. map (\<lambda>v. v * sj) cell) s row) xb) strengths x"

text \<open>\<^verbatim>\<open>T.sum(x, axis=[1,2,3])\<close>.\<close>

definition sum_axes123 :: "tensor4 \<Rightarrow> vec" where
  "sum_axes123 x = map (\<lambda>xb. sum_list (map (\<lambda>row. sum_list (map sum_list row)) xb)) x"

text \<open>
  The shapes the elementwise products need: \<open>n\<close> strengths per batch element, \<open>n \<times> n\<close>
  predicted edges, and cropped ground-truth edges of the shape of the predicted ones.
\<close>

definition edge_shapes_ok :: "nat \<Rightarrow> mat \<Rightarrow> tensor4 \<Rightarrow> tensor4 \<Rightarrow> bool" where
  "edge_shapes_ok n strengths es cropped \<longleftrightarrow>
     list_all (\<lambda>s. length s = n) strengths \<and>
     list_all2 (\<lambda>s e. length e = n \<and> list_all (\<lambda>row. length row = n) e) strengths es \<and>
     list_all2 (list_all2 (list_all2 (\<lambda>c e. length c = length e))) cropped es"

text \<open>
  The edge loss of one supervised step, one value per batch element; \<open>g\<close> is the graph
  state returned by the edge state updater.
\<close>

definition edge_loss :: "real \<Rightarrow> gstate \<Rightarrow> tensor4 \<Rightarrow> error + vec" where
  "edge_loss eps g correct_edges =
    (let cropped_correct_edges = crop_edges (n_nodes g) correct_edges in
     if \<not> edge_shapes_ok (n_nodes g) (node_strengths g) (edge_strengths g) cropped_correct_edges
     then Inl ShapeError
     else
       let lls = edge_lls eps cropped_correct_edges (edge_strengths g);
           masked_edge_lls = mask_dest (node_strengths g) (mask_src (node_strengths g) lls)
       in Inr (map uminus (sum_axes123 masked_edge_lls)))"

definition edge_inputs_ok :: "gstate \<Rightarrow> tensor4 \<Rightarrow> bool" where
  "edge_inputs_ok g correct_edges \<longleftrightarrow>
     edge_shapes_ok (n_nodes g) (node_strengths g) (edge_strengths g)
       (crop_edges (n_nodes g) correct_edges)"

text \<open>One entry of \<^verbatim>\<open>edge_lls\<close>.\<close>

definition edge_ll_term :: "real \<Rightarrow> real \<Rightarrow> real \<Rightarrow> real" where
  "edge_ll_term eps c e = c * ln (e + eps) + (1 - c) * ln (1 - e + eps)"

text \<open>
  \<^verbatim>\<open>T.nnet.binary_crossentropy(output, target)\<close> of Theano, which \<^verbatim>\<open>_build\<close> uses for
  the query loss of the subset output format (line 438).
\<close>

definition binary_crossentropy :: "real \<Rightarrow> real \<Rightarrow> real" where
  "binary_crossentropy output target = - (target * ln output + (1 - target) * ln (1 - output))"

text \<open>The same with both logarithms smoothed by \<open>eps\<close>, as \<^verbatim>\<open>edge_lls\<close> has them.\<close>

definition smoothed_crossentropy :: "real \<Rightarrow> real \<Rightarrow> real \<Rightarrow> real" where
  "smoothed_crossentropy eps output target =
     - (target * ln (output + eps) + (1 - target) * ln (1 - output + eps))"

text \<open>
  \<^verbatim>\<open>T.sum(loss)/T.cast(n_batch, 'floatX')\<close> (lines 369, 370, 377); \<open>loss\<close> is the output
  of the scan, of shape (n_sentences, n_batch).
\<close>

definition reduced_loss :: "mat \<Rightarrow> nat \<Rightarrow> real" where
  "reduced_loss loss nb = sum_list (map sum_list loss) / real nb"


text \<open>The sum itself, with the smoothed cross-entropy.\<close>

definition masked_edge_cross_entropy :: "real \<Rightarrow> gstate \<Rightarrow> tensor4 \<Rightarrow> nat \<Rightarrow> real" where
  "masked_edge_cross_entropy eps g correct_edges b =
     (\<Sum>i<n_nodes g. \<Sum>j<n_nodes g. \<Sum>t<length (edge_strengths g ! b ! i ! j).
          smoothed_crossentropy eps (edge_strengths g ! b ! i ! j ! t) (correct_edges ! b ! i ! j ! t)
          * node_strengths g ! b ! i * node_strengths g ! b ! j)"

text \<open>Two small graph states used as concrete inputs.\<close>

definition example_gstate :: gstate where
  "example_gstate = \<lparr>node_strengths = [[1]], node_ids = [[[1]]], node_states = [[[0]]],
                      edge_strengths = [[[[1/2]]]]\<rparr>"

definition example_gstate2 :: gstate where
  "example_gstate2 = \<lparr>node_strengths = [[1, 0]], node_ids = [[[1, 0], [0, 1]]],
                       node_states = [[[0], [0]]],
                       edge_strengths = [[[[1/2], [1/4]], [[1/8], [1/2]]]]\<rparr>"

subsection \<open>Aggregate representation (\<^verbatim>\<open>AggregateRepresentationTransformation.process\<close>)\<close>

text \<open>
  Modelled from the spec: \<^verbatim>\<open>GraphStateSpec\<close> of \<^verbatim>\<open>graph_state.py\<close> is not among the
  sources; the spec lists its three fields.
\<close>

record graph_spec =
  num_node_ids :: nat
  node_state_size :: nat
  num_edge_types :: nat

text \<open>The shape invariant of a graph state: all tensors share batch size and node count.\<close>

definition gstate_ok :: "graph_spec \<Rightarrow> gstate \<Rightarrow> bool" where
  "gstate_ok spec g \<longleftrightarrow>
     list_all (\<lambda>s. length s = n_nodes g) (node_strengths g) \<and>
     length (node_ids g) = n_batch g \<and>
     list_all (\<lambda>x. length x = n_nodes g \<and> list_all (\<lambda>v. length v = num_node_ids spec) x)
       (node_ids g) \<and>
     length (node_states g) = n_batch g \<and>
     list_all (\<lambda>x. length x = n_nodes g \<and> list_all (\<lambda>v. length v = node_state_size spec) x)
       (node_states g) \<and>
     length (edge_strengths g) = n_batch g \<and>
     list_all (\<lambda>e. length e = n_nodes g \<and>
        list_all (\<lambda>row. length row = n_nodes g \<and>
           list_all (\<lambda>c. length c = num_edge_types spec) row) e) (edge_strengths g)"

text \<open>
  Modelled from the spec: \<^verbatim>\<open>util.do_layer\<close> is not among the sources; the spec calls the
  layer an affine map of the rows of its input, followed by the given activation function
  (here the identity). \<open>dot_row x W n\<close> is the row vector \<open>x\<close> times the matrix \<open>W\<close> with
  \<open>n\<close> columns.
\<close>

definition dot_row :: "vec \<Rightarrow> mat \<Rightarrow> nat \<Rightarrow> vec" where
  "dot_row x W n_out = map (\<lambda>c. sum_list (map2 (\<lambda>v w. v * w ! c) x W)) [0..<n_out]"

definition do_layer :: "(real \<Rightarrow> real) \<Rightarrow> mat \<Rightarrow> mat \<Rightarrow> vec \<Rightarrow> mat" where
  "do_layer activation x W b =
     map (\<lambda>row. map activation (map2 (+) (dot_row row W (length b)) b)) x"

text \<open>\<^verbatim>\<open>x.reshape([n0, n1, -1])\<close> on a list of rows: \<open>n0\<close> consecutive groups of \<open>n1\<close> rows.\<close>

definition reshape3 :: "nat \<Rightarrow> nat \<Rightarrow> 'a list \<Rightarrow> 'a list list" where
  "reshape3 n0 n1 xs = map (\<lambda>b. take n1 (drop (b * n1) xs)) [0..<n0]"

text \<open>\<^verbatim>\<open>T.nnet.softmax\<close> on a matrix: the softmax of every row.\<close>

definition softmax :: "mat \<Rightarrow> mat" where
  "softmax x = map (\<lambda>row. map (\<lambda>v. exp v / sum_list (map exp row)) row) x"

text \<open>
  The shapes \<^verbatim>\<open>process\<close> needs: a well-shaped graph state, a weight matrix with
  \<open>num_node_ids + node_state_size\<close> rows and \<open>representation_width + 1\<close> columns, and a
  bias of that width.
\<close>

definition aggregate_shapes_ok :: "nat \<Rightarrow> graph_spec \<Rightarrow> mat \<Rightarrow> vec \<Rightarrow> gstate \<Rightarrow> bool" where
  "aggregate_shapes_ok representation_width spec W b g \<longleftrightarrow>
     gstate_ok spec g \<and>
     length W = num_node_ids spec + node_state_size spec \<and>
     list_all (\<lambda>r. length r = representation_width + 1) W \<and>
     length b = representation_width + 1"

text \<open>
  Lines 33--37: the rows of \<^verbatim>\<open>node_ids\<close> and \<^verbatim>\<open>node_states\<close>, flattened over batch and
  nodes, are concatenated, mapped through the layer and reshaped to (batch, node, width + 1).
\<close>

definition activations :: "graph_spec \<Rightarrow> mat \<Rightarrow> vec \<Rightarrow> gstate \<Rightarrow> tensor3" where
  "activations spec W b g =
    (let flat_obs = map2 (@) (concat (node_ids g)) (concat (node_states g));
         flat_activations = do_layer (\<lambda>x. x) flat_obs W b
     in reshape3 (n_batch g) (n_nodes g) flat_activations)"

text \<open>Lines 39--41: \<^verbatim>\<open>selector\<close>, the attention weights, of shape (batch, node).\<close>

definition attention_weights :: "real \<Rightarrow> graph_spec \<Rightarrow> mat \<Rightarrow> vec \<Rightarrow> gstate \<Rightarrow> mat" where
  "attention_weights eps spec W b g =
    (let activation_strengths = map (map (\<lambda>a. a ! 0)) (activations spec W b g);
         existence_penalty = map (map (\<lambda>s. ln (s + eps))) (node_strengths g)
     in softmax (map2 (map2 (+)) activation_strengths existence_penalty))"

text \<open>Lines 42--45: the result, of shape (batch, representation_width).\<close>

definition process :: "real \<Rightarrow> nat \<Rightarrow> graph_spec \<Rightarrow> mat \<Rightarrow> vec \<Rightarrow> gstate \<Rightarrow> error + mat" where
  "process eps representation_width spec W b g =
    (if \<not> aggregate_shapes_ok representation_width spec W b g then Inl ShapeError
     else
       let selector = attention_weights eps spec W b g;
           representations = map (map (\<lambda>a. map tanh (drop 1 a))) (activations spec W b g)
       in Inr (map2 (\<lambda>sel reps. map (\<lambda>c. sum_list (map2 (\<lambda>w r. w * r ! c) sel reps))
                                   [0..<representation_width])
                 selector representations))"

text \<open>
  The raw activation vector of node \<open>i\<close> of batch element \<open>bi\<close>: the affine map of
  \<open>[node_ids, node_states]\<close>. Component 0 is the attention logit, the other components
  are the raw candidate representation.
\<close>

definition node_activation :: "mat \<Rightarrow> vec \<Rightarrow> gstate \<Rightarrow> nat \<Rightarrow> nat \<Rightarrow> vec" where
  "node_activation W b g bi i =
     map2 (+) (dot_row (node_ids g ! bi ! i @ node_states g ! bi ! i) W (length b)) b"

definition attention_logit :: "real \<Rightarrow> mat \<Rightarrow> vec \<Rightarrow> gstate \<Rightarrow> nat \<Rightarrow> nat \<Rightarrow> real" where
  "attention_logit eps W b g bi j =
     node_activation W b g bi j ! 0 + ln (node_strengths g ! bi ! j + eps)"

text \<open>In batch element \<open>bi\<close>, node \<open>i\<close> has strength 1 and every other node strength 0.\<close>

definition one_hot_strengths :: "gstate \<Rightarrow> nat \<Rightarrow> nat \<Rightarrow> bool" where
  "one_hot_strengths g bi i \<longleftrightarrow>
     (\<forall>j<n_nodes g. node_strengths g ! bi ! j = (if j = i then 1 else 0))"

text \<open>Concrete inputs for the aggregation.\<close>

definition example_spec :: graph_spec where
  "example_spec = \<lparr>num_node_ids = 2, node_state_size = 1, num_edge_types = 1\<rparr>"

definition example_W :: mat where
  "example_W = [[0, 0], [0, 1], [0, 0]]"

definition example_gstate3 :: gstate where
  "example_gstate3 = \<lparr>node_strengths = [[1, 0]], node_ids = [[[1, 0], [0, 1]]],
                       node_states = [[[0], [0]]],
                       edge_strengths = [[[[0], [0]], [[0], [0]]]]\<rparr>"

definition example_spec1 :: graph_spec where
  "example_spec1 = \<lparr>num_node_ids = 1, node_state_size = 1, num_edge_types = 1\<rparr>"

subsection \<open>The constructor \<^verbatim>\<open>Model.__init__\<close>\<close>

text \<open>
  The enumeration \<^verbatim>\<open>ModelOutputFormat\<close>, and the values the argument \<^verbatim>\<open>output_format\<close>
  can take: a member of the enumeration or any other Python value.
\<close>

datatype ModelOutputFormat = category | subset | sequence

datatype output_format_arg = Member ModelOutputFormat | NotMember

text \<open>
  The constructor arguments that steer the construction and \<^verbatim>\<open>_build\<close>. The three sizes
  of the graph are kept as the \<^verbatim>\<open>GraphStateSpec\<close> the constructor makes of them; \<open>do_setup\<close>
  is the argument \<^verbatim>\<open>setup\<close>.
\<close>

record config =
  graphspec :: graph_spec
  new_nodes_per_iter :: nat
  output_format :: output_format_arg
  final_propagate :: nat
  word_node_mapping :: "(nat \<times> nat) list"
  dynamic_nodes :: bool
  nodes_mutable :: bool
  wipe_node_state :: bool
  best_node_match_only :: bool
  intermediate_propagate :: nat
  sequence_representation :: bool
  use_old_aggregate :: bool
  train_with_graph :: bool
  train_with_query :: bool
  do_setup :: bool

text \<open>
  The transformation objects of \<^verbatim>\<open>transformation_modules\<close> the constructor creates. Their
  classes are collaborators; whether a constructor call returns or raises is the parameter
  \<open>ctor\<close> of \<open>run_steps\<close>.
\<close>

datatype component =
    InputSequenceDirect | NodeStateUpdate | DirectReferenceUpdate | IntermediatePropagation
  | NewNodesInform | EdgeStateUpdate | QueryNodeStateUpdate | QueryDirectReferenceUpdate
  | FinalPropagation | AggregateRepresentation | AggregateRepresentationSoftmax
  | SequenceAggregateSummary | OutputCategory | OutputSet | OutputSequence

datatype init_step = Construct component | AssertOutputFormat | CallSetup

datatype event = Constructed component | SetupCalled

text \<open>
  The steps of lines 92--145 in source order: the constructor calls that the configuration
  enables, the assertion on \<^verbatim>\<open>output_format\<close> (line 132, inside \<^verbatim>\<open>if self.train_with_query\<close>),
  and the call of \<^verbatim>\<open>self.setup()\<close>, which builds and compiles the computation graphs.
\<close>

definition init_steps :: "config \<Rightarrow> init_step list" where
  "init_steps cfg =
     [Construct InputSequenceDirect]
     @ (if nodes_mutable cfg then [Construct NodeStateUpdate] else [])
     @ (if length (word_node_mapping cfg) > 0 then [Construct DirectReferenceUpdate] else [])
     @ (if intermediate_propagate cfg \<noteq> 0 then [Construct IntermediatePropagation] else [])
     @ (if dynamic_nodes cfg then [Construct NewNodesInform] else [])
     @ [Construct EdgeStateUpdate]
     @ (if train_with_query cfg then
          [Construct QueryNodeStateUpdate]
          @ (if length (word_node_mapping cfg) > 0 then [Construct QueryDirectReferenceUpdate]
             else [])
          @ [Construct FinalPropagation,
             Construct (if use_old_aggregate cfg then AggregateRepresentationSoftmax
                        else AggregateRepresentation)]
          @ (if sequence_representation cfg then [Construct SequenceAggregateSummary] else [])
          @ [AssertOutputFormat]
          @ (case output_format cfg of
               Member category \<Rightarrow> [Construct OutputCategory]
             | Member subset \<Rightarrow> [Construct OutputSet]
             | Member sequence \<Rightarrow> [Construct OutputSequence]
             | NotMember \<Rightarrow> [])
        else [])
     @ (if do_setup cfg then [CallSetup] else [])"

text \<open>
  \<^verbatim>\<open>setup\<close> (lines 151--521) builds four computation graphs with \<^verbatim>\<open>_build\<close> and compiles
  them, and can raise. One failure is in the source: the training graph is built with
  \<^verbatim>\<open>_build(self.train_with_graph, False, True, False)\<close>, and with dynamic nodes and the
  correct graph lines 221--222 index the ground truth with the array of the permutations of
  \<^verbatim>\<open>range(new_nodes_per_iter)\<close>, which for \<^verbatim>\<open>new_nodes_per_iter = 0\<close> is an empty array of
  floats and no index (see \<open>node_loss\<close>). Every other failure of building and compiling, which
  is the work of Theano and of the transformation classes, is the parameter \<open>compile\<close>.
\<close>

definition setup_graphs :: "(config \<Rightarrow> error option) \<Rightarrow> config \<Rightarrow> error option" where
  "setup_graphs compile cfg =
     (if train_with_graph cfg \<and> dynamic_nodes cfg \<and> new_nodes_per_iter cfg = 0
      then Some TypeError else compile cfg)"

text \<open>
  Running the steps gives the events that happened and the exception raised, if any; \<open>su\<close>
  is the outcome of \<^verbatim>\<open>setup\<close>. In versions of Python that answer
  \<^verbatim>\<open>x in ModelOutputFormat\<close> for a value that is no member with \<^verbatim>\<open>False\<close>, the assertion fails
  with \<open>AssertionError\<close>.
\<close>

fun run_steps :: "(component \<Rightarrow> bool) \<Rightarrow> error option \<Rightarrow> output_format_arg \<Rightarrow> init_step list
                  \<Rightarrow> event list \<times> error option" where
  "run_steps ctor su fmt [] = ([], None)"
| "run_steps ctor su fmt (Construct c # rest) =
     (if ctor c then (case run_steps ctor su fmt rest of (ev, r) \<Rightarrow> (Constructed c # ev, r))
      else ([], Some ConstructorError))"
| "run_steps ctor su fmt (AssertOutputFormat # rest) =
     (case fmt of NotMember \<Rightarrow> ([], Some AssertionError)
                | Member _ \<Rightarrow> run_steps ctor su fmt rest)"
| "run_steps ctor su fmt (CallSetup # rest) =
     (case su of
        Some e \<Rightarrow> ([SetupCalled], Some e)
      | None \<Rightarrow> (case run_steps ctor su fmt rest of (ev, r) \<Rightarrow> (SetupCalled # ev, r)))"

definition init :: "(component \<Rightarrow> bool) \<Rightarrow> (config \<Rightarrow> error option) \<Rightarrow> config
                    \<Rightarrow> event list \<times> error option" where
  "init ctor compile cfg =
     run_steps ctor (setup_graphs compile cfg) (output_format cfg) (init_steps cfg)"

definition example_config :: config where
  "example_config = \<lparr>graphspec = example_spec, new_nodes_per_iter = 1,
     output_format = NotMember, final_propagate = 1, word_node_mapping = [],
     dynamic_nodes = True, nodes_mutable = True, wipe_node_state = True,
     best_node_match_only = True, intermediate_propagate = 0,
     sequence_representation = False, use_old_aggregate = False,
     train_with_graph = True, train_with_query = False, do_setup = True\<rparr>"

subsection \<open>Operations on the graph state\<close>

text \<open>
  Modelled from the spec: the operations of \<^verbatim>\<open>GraphState\<close> (\<^verbatim>\<open>graph_state.py\<close>, not among
  the sources), section 4.1 of the spec. \<open>create_empty\<close> has no nodes; \<open>create_full_unique\<close>
  has one node of strength 1 per id, with the one-hot id and a zero state;
  \<open>with_additional_nodes\<close> appends nodes with zero states and zero edges;
  \<open>flatten_to_const_size\<close> pads every tensor with zeros to a fixed number of node slots and
  keeps the node count; \<open>unflatten_from_const_size\<close> crops the tensors to the node count.
  The spec does not say what a pad size below the node count does; the model returns an
  error there. \<^verbatim>\<open>with_updates\<close> is the record update.
\<close>

record flat_gstate =
  f_node_strengths :: mat
  f_node_ids :: tensor3
  f_node_states :: tensor3
  f_edge_strengths :: tensor4
  f_n_nodes :: nat

definition create_empty :: "nat \<Rightarrow> graph_spec \<Rightarrow> gstate" where
  "create_empty nb spec =
     \<lparr>node_strengths = replicate nb [], node_ids = replicate nb [],
      node_states = replicate nb [], edge_strengths = replicate nb []\<rparr>"

definition create_full_unique :: "nat \<Rightarrow> graph_spec \<Rightarrow> gstate" where
  "create_full_unique nb spec =
    (let n = num_node_ids spec in
     \<lparr>node_strengths = replicate nb (replicate n 1),
      node_ids = replicate nb (map (\<lambda>i. map (\<lambda>j. if i = j then 1 else 0) [0..<n]) [0..<n]),
      node_states = replicate nb (replicate n (replicate (node_state_size spec) 0)),
      edge_strengths = replicate nb (replicate n (replicate n (replicate (num_edge_types spec) 0)))\<rparr>)"

definition with_additional_nodes :: "graph_spec \<Rightarrow> gstate \<Rightarrow> mat \<Rightarrow> tensor3 \<Rightarrow> gstate" where
  "with_additional_nodes spec g new_strengths new_ids =
    (let zero_state = replicate (node_state_size spec) 0;
         zero_edge = replicate (num_edge_types spec) 0
     in \<lparr>node_strengths = map2 (@) (node_strengths g) new_strengths,
         node_ids = map2 (@) (node_ids g) new_ids,
         node_states = map2 (\<lambda>st ns. st @ replicate (length ns) zero_state)
                         (node_states g) new_strengths,
         edge_strengths = map2 (\<lambda>e ns.
              map (\<lambda>row. row @ replicate (length ns) zero_edge) e
              @ replicate (length ns) (replicate (length e + length ns) zero_edge))
            (edge_strengths g) new_strengths\<rparr>)"

definition pad_to :: "nat \<Rightarrow> 'a \<Rightarrow> 'a list \<Rightarrow> 'a list" where
  "pad_to n z xs = xs @ replicate (n - length xs) z"

definition flatten_to_const_size :: "graph_spec \<Rightarrow> gstate \<Rightarrow> nat \<Rightarrow> error + flat_gstate" where
  "flatten_to_const_size spec g pad_size =
    (if pad_size < n_nodes g then Inl ShapeError
     else
       let zero_edge = replicate (num_edge_types spec) 0 in
       Inr \<lparr>f_node_strengths = map (pad_to pad_size 0) (node_strengths g),
            f_node_ids = map (pad_to pad_size (replicate (num_node_ids spec) 0)) (node_ids g),
            f_node_states = map (pad_to pad_size (replicate (node_state_size spec) 0))
                              (node_states g),
            f_edge_strengths = map (\<lambda>e. pad_to pad_size (replicate pad_size zero_edge)
                                          (map (pad_to pad_size zero_edge) e))
                                 (edge_strengths g),
            f_n_nodes = n_nodes g\<rparr>)"

definition unflatten_from_const_size :: "flat_gstate \<Rightarrow> gstate" where
  "unflatten_from_const_size fl =
    (let n = f_n_nodes fl in
     \<lparr>node_strengths = map (take n) (f_node_strengths fl),
      node_ids = map (take n) (f_node_ids fl),
      node_states = map (take n) (f_node_states fl),
      edge_strengths = map (\<lambda>e. map (take n) (take n e)) (f_edge_strengths fl)\<rparr>)"

text \<open>Lines 330--340 of \<^verbatim>\<open>_build\<close>: the initial graph state and the pad size.\<close>

definition initial_gstate :: "config \<Rightarrow> nat \<Rightarrow> gstate" where
  "initial_gstate cfg nb =
     (if dynamic_nodes cfg then create_empty nb (graphspec cfg)
      else create_full_unique nb (graphspec cfg))"

definition pad_graph_size :: "config \<Rightarrow> nat \<Rightarrow> nat" where
  "pad_graph_size cfg n_sentences =
     (if dynamic_nodes cfg then n_sentences * new_nodes_per_iter cfg + 1
      else num_node_ids (graphspec cfg))"


subsection \<open>The forward pass \<^verbatim>\<open>_build\<close> and \<^verbatim>\<open>train\<close>\<close>

text \<open>
  The transformation objects of \<^verbatim>\<open>transformation_modules\<close> and the helpers
  \<^verbatim>\<open>util.independent_best\<close> and \<^verbatim>\<open>util.categorical_best\<close> are collaborators that are not
  among the sources. They are parameters of the model: one function per method that
  \<^verbatim>\<open>model.py\<close> calls, with the signature of the call. A function stands for the method
  together with the learned parameters of its object, so a value of this record is also the
  parameter vector that the optimizer updates. \<open>'m\<close> is the type of dropout masks.
  The aggregator is called with dropout masks and returns a pair (line 417); the class in
  \<^verbatim>\<open>aggregate_representation.py\<close>, modelled above, has the same formula without the masks.
\<close>

record 'm transformations =
  input_transformer_process :: "int list list \<Rightarrow> mat \<times> tensor3"
  node_state_updater_process :: "gstate \<Rightarrow> mat \<Rightarrow> 'm list option \<Rightarrow> gstate \<times> 'm list option"
  direct_reference_updater_process ::
    "gstate \<Rightarrow> tensor3 option \<Rightarrow> 'm list option \<Rightarrow> gstate \<times> 'm list option"
  intermediate_propagator_process_multiple ::
    "gstate \<Rightarrow> nat \<Rightarrow> 'm list option \<Rightarrow> gstate \<times> 'm list option"
  new_node_adder_get_candidates ::
    "gstate \<Rightarrow> mat \<Rightarrow> nat \<Rightarrow> 'm list option \<Rightarrow> mat \<times> tensor3 \<times> 'm list option"
  edge_state_updater_process :: "gstate \<Rightarrow> mat \<Rightarrow> 'm list option \<Rightarrow> gstate \<times> 'm list option"
  query_node_state_updater_process ::
    "gstate \<Rightarrow> mat \<Rightarrow> 'm list option \<Rightarrow> gstate \<times> 'm list option"
  query_direct_reference_updater_process ::
    "gstate \<Rightarrow> tensor3 option \<Rightarrow> 'm list option \<Rightarrow> gstate \<times> 'm list option"
  final_propagator_process_multiple ::
    "gstate \<Rightarrow> nat \<Rightarrow> 'm list option \<Rightarrow> gstate \<times> 'm list option"
  aggregator_process :: "gstate \<Rightarrow> 'm list option \<Rightarrow> mat \<times> 'm list option"
  aggregate_summarizer_process :: "tensor3 \<Rightarrow> 'm list option \<Rightarrow> mat \<times> 'm list option"
  output_processor_process :: "mat \<Rightarrow> nat option \<Rightarrow> tensor3"
  output_processor_snap_to_best :: "tensor3 \<Rightarrow> tensor3"
  independent_best :: "real \<Rightarrow> real"
  categorical_best :: "vec \<Rightarrow> vec"

text \<open>
  The dropout masks drawn from \<^verbatim>\<open>self.srng\<close> in one forward pass are inputs of the model.
  \<open>iter_dropouts\<close> are the masks of lines 186--196, which line 357 hands to \<^verbatim>\<open>theano.scan\<close>
  as sequences: every mask is given as the list of its slices along its first axis. The
  other fields are the lists returned by the \<^verbatim>\<open>dropout_masks\<close> calls of lines 406--424.
\<close>

record 'm dropout =
  iter_dropouts :: "'m list list"
  qnsu_dropout_masks :: "'m list option"
  qdru_dropout_masks :: "'m list option"
  fp_dropout_masks :: "'m list option"
  agg_dropout_masks :: "'m list option"
  aggsum_dropout_masks :: "'m list option"

text \<open>The seven arguments of \<^verbatim>\<open>train\<close> and \<^verbatim>\<open>eval\<close> (lines 156--171).\<close>

record inputs =
  input_words :: "int list list list"
  query_words :: "int list list"
  correct_output :: tensor3
  graph_num_new_nodes :: "int list list"
  graph_new_node_strengths :: tensor3
  graph_new_node_ids :: tensor4
  graph_new_edges :: tensor5

text \<open>
  What \<^verbatim>\<open>_scan_fn\<close> receives in one step: the slices of the sequences, and what it returns
  besides the flattened graph state.
\<close>

record correct_graph =
  c_num_new_nodes :: "int list"
  c_new_strengths :: mat
  c_new_node_ids :: tensor3
  c_edges :: tensor4

record 'm step_input =
  s_input_repr :: mat
  s_ref_matrix :: "tensor3 option"
  s_correct :: "correct_graph option"
  s_dropout_masks :: "'m list option"

record scan_out =
  o_flat :: flat_gstate
  o_node_loss :: "vec option"
  o_edge_loss :: "vec option"

text \<open>
  Lines 213--261 of \<^verbatim>\<open>_iter_fn\<close>: candidates for new nodes, their loss against the ground
  truth, and the graph state with the new nodes. A ground truth of \<^verbatim>\<open>None\<close> cannot be used
  as a tensor.
\<close>

definition propose_nodes ::
  "real \<Rightarrow> config \<Rightarrow> 'm transformations \<Rightarrow> bool \<Rightarrow> bool \<Rightarrow> mat \<Rightarrow> gstate
     \<Rightarrow> correct_graph option \<Rightarrow> 'm list option
     \<Rightarrow> error + (gstate \<times> vec option \<times> 'm list option)" where
  "propose_nodes eps cfg tf with_correct_graph snap_to_best input_repr gstate correct dropout_masks =
    (if dynamic_nodes cfg then
       (case new_node_adder_get_candidates tf gstate input_repr (new_nodes_per_iter cfg)
               dropout_masks of
          (new_strengths, new_ids, dropout_masks') \<Rightarrow>
            if with_correct_graph then
              (case correct of
                 None \<Rightarrow> Inl TypeError
               | Some c \<Rightarrow>
                  (case node_loss (best_node_match_only cfg) (new_nodes_per_iter cfg) eps
                          new_strengths new_ids (c_num_new_nodes c) (c_new_strengths c)
                          (c_new_node_ids c) of
                     Inl e \<Rightarrow> Inl e
                   | Inr nl \<Rightarrow>
                       Inr (with_additional_nodes (graphspec cfg) gstate (c_new_strengths c)
                              (c_new_node_ids c), Some nl, dropout_masks')))
            else if snap_to_best then
              Inr (with_additional_nodes (graphspec cfg) gstate
                     (map (map (independent_best tf)) new_strengths)
                     (map (map (categorical_best tf)) new_ids), None, dropout_masks')
            else
              Inr (with_additional_nodes (graphspec cfg) gstate new_strengths new_ids,
                   None, dropout_masks'))
     else Inr (gstate, None, dropout_masks))"

text \<open>
  \<^verbatim>\<open>_iter_fn\<close> (lines 201--290). The result is the new graph state, the node loss (absent
  without dynamic nodes or ground truth) and the edge loss (absent without ground truth).
  The outputs computed only under \<^verbatim>\<open>evaluate_accuracy\<close> are not part of the model.
\<close>

definition iter_fn ::
  "real \<Rightarrow> config \<Rightarrow> 'm transformations \<Rightarrow> bool \<Rightarrow> bool \<Rightarrow> mat \<Rightarrow> tensor3 option
     \<Rightarrow> gstate \<Rightarrow> correct_graph option \<Rightarrow> 'm list option
     \<Rightarrow> error + (gstate \<times> vec option \<times> vec option)" where
  "iter_fn eps cfg tf with_correct_graph snap_to_best input_repr ref_matrix gstate correct
       dropout_masks =
    (case (if nodes_mutable cfg
           then node_state_updater_process tf gstate input_repr dropout_masks
           else (gstate, dropout_masks)) of
     (g1, dm1) \<Rightarrow>
    (case (if length (word_node_mapping cfg) > 0
           then direct_reference_updater_process tf g1 ref_matrix dm1
           else (g1, dm1)) of
     (g2, dm2) \<Rightarrow>
    (case (if intermediate_propagate cfg \<noteq> 0
           then intermediate_propagator_process_multiple tf g2 (intermediate_propagate cfg) dm2
           else (g2, dm2)) of
     (g3, dm3) \<Rightarrow>
    (case propose_nodes eps cfg tf with_correct_graph snap_to_best input_repr g3 correct dm3 of
       Inl e \<Rightarrow> Inl e
     | Inr (g4, nl, dm4) \<Rightarrow>
        (case edge_state_updater_process tf g4 input_repr dm4 of
         (g5, dm5) \<Rightarrow>
           if with_correct_graph then
             (case correct of
                None \<Rightarrow> Inl TypeError
              | Some c \<Rightarrow>
                 (case edge_loss eps g5 (c_edges c) of
                    Inl e \<Rightarrow> Inl e
                  | Inr el \<Rightarrow>
                      Inr (g5\<lparr>edge_strengths := crop_edges (n_nodes g5) (c_edges c)\<rparr>,
                           nl, Some el)))
           else if snap_to_best then
             Inr (g5\<lparr>edge_strengths :=
                       map (map (map (map (independent_best tf)))) (edge_strengths g5)\<rparr>,
                  None, None)
           else Inr (g5, None, None))))))"

text \<open>\<^verbatim>\<open>_scan_fn\<close> (lines 293--328): unflatten, one step, flatten to the pad size.\<close>

definition scan_fn ::
  "real \<Rightarrow> config \<Rightarrow> 'm transformations \<Rightarrow> bool \<Rightarrow> bool \<Rightarrow> nat \<Rightarrow> 'm step_input
     \<Rightarrow> flat_gstate \<Rightarrow> error + scan_out" where
  "scan_fn eps cfg tf with_correct_graph snap_to_best pad_size x flat_graph_state =
    (let gstate = unflatten_from_const_size flat_graph_state in
     case iter_fn eps cfg tf with_correct_graph snap_to_best (s_input_repr x) (s_ref_matrix x)
            gstate (s_correct x) (s_dropout_masks x) of
       Inl e \<Rightarrow> Inl e
     | Inr (g, nl, el) \<Rightarrow>
        (case flatten_to_const_size (graphspec cfg) g pad_size of
           Inl e \<Rightarrow> Inl e
         | Inr fl \<Rightarrow> Inr \<lparr>o_flat = fl, o_node_loss = nl, o_edge_loss = el\<rparr>))"

text \<open>
  \<^verbatim>\<open>theano.scan\<close> with a recurrent flat graph state: the step function is applied to the
  slices of the sequences in turn, and the outputs of all steps are collected.
\<close>

fun scan_loop ::
  "('x \<Rightarrow> flat_gstate \<Rightarrow> error + scan_out) \<Rightarrow> 'x list \<Rightarrow> flat_gstate
     \<Rightarrow> error + scan_out list" where
  "scan_loop f [] fl = Inr []"
| "scan_loop f (x # xs) fl =
     (case f x fl of
        Inl e \<Rightarrow> Inl e
      | Inr out \<Rightarrow>
         (case scan_loop f xs (o_flat out) of
            Inl e \<Rightarrow> Inl e
          | Inr outs \<Rightarrow> Inr (out # outs)))"

text \<open>
  The sequences of lines 341--357, sliced per step. \<^verbatim>\<open>swapaxes(0,1)\<close> and \<^verbatim>\<open>dimshuffle\<close>
  of the two leading axes are \<open>transpose\<close>; \<^verbatim>\<open>theano.scan\<close> runs as many steps as its
  shortest sequence has entries.
\<close>

definition scan_steps ::
  "config \<Rightarrow> bool \<Rightarrow> bool \<Rightarrow> 'm dropout \<Rightarrow> mat list \<Rightarrow> tensor3 list \<Rightarrow> inputs
     \<Rightarrow> 'm step_input list" where
  "scan_steps cfg with_correct_graph using_dropout dr prepped_input ref_seq inp =
    (let has_refs = length (word_node_mapping cfg) > 0;
         lens = [length prepped_input]
                @ (if has_refs then [length ref_seq] else [])
                @ (if with_correct_graph
                   then [length (transpose (graph_num_new_nodes inp)),
                         length (transpose (graph_new_node_strengths inp)),
                         length (transpose (graph_new_node_ids inp)),
                         length (transpose (graph_new_edges inp))]
                   else [])
                @ (if using_dropout then map length (iter_dropouts dr) else []);
         n_steps = Min (set lens)
     in map (\<lambda>t.
          \<lparr>s_input_repr = prepped_input ! t,
           s_ref_matrix = (if has_refs then Some (ref_seq ! t) else None),
           s_correct = (if with_correct_graph
                        then Some \<lparr>c_num_new_nodes = transpose (graph_num_new_nodes inp) ! t,
                                   c_new_strengths = transpose (graph_new_node_strengths inp) ! t,
                                   c_new_node_ids = transpose (graph_new_node_ids inp) ! t,
                                   c_edges = transpose (graph_new_edges inp) ! t\<rparr>
                        else None),
           s_dropout_masks = (if using_dropout then Some (map (\<lambda>m. m ! t) (iter_dropouts dr))
                              else None)\<rparr>) [0..<n_steps])"

text \<open>
  Lines 366--379: the reduced node and edge losses, the average graph loss and the entries
  of \<^verbatim>\<open>info\<close>. \<open>nb\<close> is \<^verbatim>\<open>n_batch\<close>, \<open>n_sentences\<close> is \<^verbatim>\<open>input_words.shape[1]\<close>.
\<close>

definition graph_loss ::
  "config \<Rightarrow> nat \<Rightarrow> nat \<Rightarrow> scan_out list \<Rightarrow> error + (real \<times> (string \<times> real) list)" where
  "graph_loss cfg nb n_sentences outs =
    (case those (map o_edge_loss outs) of
       None \<Rightarrow> Inl TypeError
     | Some edge_losses \<Rightarrow>
        if dynamic_nodes cfg then
          (case those (map o_node_loss outs) of
             None \<Rightarrow> Inl TypeError
           | Some node_losses \<Rightarrow>
              let reduced_node_loss = reduced_loss node_losses nb;
                  reduced_edge_loss = reduced_loss edge_losses nb;
                  avg_graph_loss = (reduced_node_loss + reduced_edge_loss) / real n_sentences
              in Inr (avg_graph_loss,
                      [(''node_loss'', reduced_node_loss), (''edge_loss'', reduced_edge_loss)]))
        else
          let reduced_edge_loss = reduced_loss edge_losses nb;
              avg_graph_loss = reduced_edge_loss / real n_sentences
          in Inr (avg_graph_loss, [(''edge_loss'', reduced_edge_loss)]))"

text \<open>
  Lines 383--400: the graph state the query sees, the last one or, with
  \<^verbatim>\<open>sequence_representation\<close>, the states of all steps stacked along the batch axis. Indexing
  the last step of an empty scan raises.
\<close>

definition final_gstate :: "config \<Rightarrow> scan_out list \<Rightarrow> error + gstate" where
  "final_gstate cfg outs =
    (if outs = [] then Inl ShapeError
     else if sequence_representation cfg then
       let fls = map o_flat outs in
       Inr (unflatten_from_const_size
              \<lparr>f_node_strengths = concat (transpose (map f_node_strengths fls)),
               f_node_ids = concat (transpose (map f_node_ids fls)),
               f_node_states = concat (transpose (map f_node_states fls)),
               f_edge_strengths = concat (transpose (map f_edge_strengths fls)),
               f_n_nodes = f_n_nodes (last fls)\<rparr>)
     else Inr (unflatten_from_const_size (o_flat (last outs))))"

text \<open>\<^verbatim>\<open>T.nnet.categorical_crossentropy\<close> of one row.\<close>

definition categorical_crossentropy :: "vec \<Rightarrow> vec \<Rightarrow> real" where
  "categorical_crossentropy coding_dist true_dist =
     - sum_list (map2 (\<lambda>t p. t * ln p) true_dist coding_dist)"

text \<open>
  Lines 437--444: the summed loss of the output; \<^verbatim>\<open>reshape([-1, num_output_words])\<close> merges
  the two leading axes.
\<close>

definition query_loss_sum :: "config \<Rightarrow> tensor3 \<Rightarrow> tensor3 \<Rightarrow> error + real" where
  "query_loss_sum cfg final_output correct =
    (if \<not> list_all2 (list_all2 (\<lambda>a b. length a = length b)) final_output correct
     then Inl ShapeError
     else if output_format cfg = Member subset then
       Inr (sum_list (map (\<lambda>m. sum_list (map sum_list m))
              (map2 (map2 (map2 binary_crossentropy)) final_output correct)))
     else
       Inr (sum_list (map2 categorical_crossentropy (concat final_output) (concat correct))))"

text \<open>Lines 395--446: the query branch; its result is \<^verbatim>\<open>query_loss\<close> and \<^verbatim>\<open>final_output\<close>.\<close>

definition query_phase ::
  "config \<Rightarrow> 'm transformations \<Rightarrow> 'm dropout \<Rightarrow> bool \<Rightarrow> nat \<Rightarrow> nat \<Rightarrow> gstate \<Rightarrow> mat
     \<Rightarrow> tensor3 \<Rightarrow> tensor3 \<Rightarrow> error + (real \<times> tensor3)" where
  "query_phase cfg tf dr snap_to_best nb n_sentences final query_repr0 query_ref_matrix0 correct =
    (let query_repr = (if sequence_representation cfg
                       then concat (map (replicate n_sentences) query_repr0) else query_repr0);
         query_ref_matrix = (if sequence_representation cfg
                       then concat (map (replicate n_sentences) query_ref_matrix0)
                       else query_ref_matrix0);
         g0 = (if wipe_node_state cfg
               then final\<lparr>node_states := map (map (map (\<lambda>_. 0))) (node_states final)\<rparr>
               else final);
         g1 = fst (query_node_state_updater_process tf g0 query_repr (qnsu_dropout_masks dr));
         g2 = (if length (word_node_mapping cfg) > 0
               then fst (query_direct_reference_updater_process tf g1 (Some query_ref_matrix)
                           (qdru_dropout_masks dr))
               else g1);
         propagated = fst (final_propagator_process_multiple tf g2 (final_propagate cfg)
                             (fp_dropout_masks dr));
         aggregated0 = fst (aggregator_process tf propagated (agg_dropout_masks dr));
         aggregated = (if sequence_representation cfg
                       then fst (aggregate_summarizer_process tf
                                   (reshape3 nb n_sentences aggregated0) (aggsum_dropout_masks dr))
                       else aggregated0);
         max_seq_len = (case correct of [] \<Rightarrow> 0 | x # _ \<Rightarrow> length x);
         final_output0 = (if output_format cfg = Member sequence
                          then output_processor_process tf aggregated (Some max_seq_len)
                          else output_processor_process tf aggregated None);
         final_output = (if snap_to_best then output_processor_snap_to_best tf final_output0
                         else final_output0)
     in case query_loss_sum cfg final_output correct of
          Inl e \<Rightarrow> Inl e
        | Inr s \<Rightarrow> Inr (s / real nb, final_output))"

text \<open>Lines 450--454.\<close>

definition full_loss :: "(real \<times> (string \<times> real) list) option \<Rightarrow> (real \<times> tensor3) option \<Rightarrow> real" where
  "full_loss graph_part query_part =
    (let l0 = 0;
         l1 = (case graph_part of Some (avg_graph_loss, _) \<Rightarrow> l0 + avg_graph_loss | None \<Rightarrow> l0);
         l2 = (case query_part of Some (query_loss, _) \<Rightarrow> l1 + query_loss | None \<Rightarrow> l1)
     in l2)"

text \<open>Lines 176--181 and 330--358: the inputs of the scan and the scan itself.\<close>

definition graph_outs ::
  "real \<Rightarrow> config \<Rightarrow> 'm transformations \<Rightarrow> 'm dropout \<Rightarrow> bool \<Rightarrow> bool \<Rightarrow> bool \<Rightarrow> inputs
     \<Rightarrow> error + scan_out list" where
  "graph_outs eps cfg tf dr with_correct_graph snap_to_best using_dropout inp =
    (let nb = length (input_words inp);
         n_sentences = (case input_words inp of [] \<Rightarrow> 0 | x # _ \<Rightarrow> length x);
         flat = input_transformer_process tf (concat (input_words inp));
         input_reprs = reshape3 nb n_sentences (fst flat);
         ref_matrices = reshape3 nb n_sentences (snd flat);
         pad_size = pad_graph_size cfg n_sentences
     in case flatten_to_const_size (graphspec cfg) (initial_gstate cfg nb) pad_size of
          Inl e \<Rightarrow> Inl e
        | Inr outputs_info \<Rightarrow>
            scan_loop (scan_fn eps cfg tf with_correct_graph snap_to_best pad_size)
              (scan_steps cfg with_correct_graph using_dropout dr (transpose input_reprs)
                 (transpose ref_matrices) inp)
              outputs_info)"

definition batch_size :: "inputs \<Rightarrow> nat" where
  "batch_size inp = length (input_words inp)"

definition sentence_count :: "inputs \<Rightarrow> nat" where
  "sentence_count inp = (case input_words inp of [] \<Rightarrow> 0 | x # _ \<Rightarrow> length x)"

text \<open>
  \<^verbatim>\<open>_build(with_correct_graph, snap_to_best, using_dropout, evaluate_accuracy)\<close> without
  the accuracy and the per-step graph states: the loss, the final output and \<^verbatim>\<open>info\<close>
  (an association list in the order of insertion). Without the query branch the source
  returns a zero scalar as final output, the model the empty tensor.
\<close>

definition build ::
  "real \<Rightarrow> config \<Rightarrow> 'm transformations \<Rightarrow> 'm dropout \<Rightarrow> bool \<Rightarrow> bool \<Rightarrow> bool \<Rightarrow> inputs
     \<Rightarrow> error + (real \<times> tensor3 \<times> (string \<times> real) list)" where
  "build eps cfg tf dr with_correct_graph snap_to_best using_dropout inp =
    (let nb = length (input_words inp);
         n_sentences = (case input_words inp of [] \<Rightarrow> 0 | x # _ \<Rightarrow> length x);
         query = input_transformer_process tf (query_words inp)
     in case graph_outs eps cfg tf dr with_correct_graph snap_to_best using_dropout inp of
          Inl e \<Rightarrow> Inl e
        | Inr outs \<Rightarrow>
     (case (if with_correct_graph then map_sum id Some (graph_loss cfg nb n_sentences outs)
            else Inr None) of
          Inl e \<Rightarrow> Inl e
        | Inr graph_part \<Rightarrow>
     (case final_gstate cfg outs of
          Inl e \<Rightarrow> Inl e
        | Inr final \<Rightarrow>
     (case (if train_with_query cfg
            then map_sum id Some (query_phase cfg tf dr snap_to_best nb n_sentences final
                                    (fst query) (snd query) (correct_output inp))
            else Inr None) of
          Inl e \<Rightarrow> Inl e
        | Inr query_part \<Rightarrow>
            Inr (full_loss graph_part query_part,
                 (case query_part of Some (_, final_output) \<Rightarrow> final_output | None \<Rightarrow> []),
                 (case graph_part of Some (_, info) \<Rightarrow> info | None \<Rightarrow> [])
                 @ (case query_part of Some (query_loss, _) \<Rightarrow> [(''query_loss'', query_loss)]
                    | None \<Rightarrow> []))))))"

text \<open>
  \<^verbatim>\<open>train\<close> (lines 472--493, 523--533): the graph is built with
  \<^verbatim>\<open>_build(self.train_with_graph, False, True, False)\<close>; a call returns the loss and \<^verbatim>\<open>info\<close>
  and applies the updates of the optimizer. Modelled from the spec: \<^verbatim>\<open>Adam\<close> (\<^verbatim>\<open>adam.py\<close>)
  is not among the sources; the spec describes the optimizer as a pluggable collaborator
  that consumes the loss and the parameters and produces the parameter update. It is the
  parameter \<open>optimizer\<close>, given the loss as a function of the parameters and the current
  parameters.
\<close>

definition train ::
  "(('m transformations \<Rightarrow> error + real) \<Rightarrow> 'm transformations \<Rightarrow> 'm transformations)
     \<Rightarrow> real \<Rightarrow> config \<Rightarrow> 'm transformations \<Rightarrow> 'm dropout \<Rightarrow> inputs
     \<Rightarrow> error + ((real \<times> (string \<times> real) list) \<times> 'm transformations)" where
  "train optimizer eps cfg tf dr inp =
    (case build eps cfg tf dr (train_with_graph cfg) False True inp of
       Inl e \<Rightarrow> Inl e
     | Inr (train_loss, _, train_info) \<Rightarrow>
         Inr ((train_loss, train_info),
              optimizer (\<lambda>tf'. map_sum id fst
                           (build eps cfg tf' dr (train_with_graph cfg) False True inp)) tf))"

text \<open>A small configuration, collaborators and inputs on which the forward pass runs.\<close>

definition example_train_config :: config where
  "example_train_config = \<lparr>graphspec = example_spec, new_nodes_per_iter = 1,
     output_format = Member category, final_propagate = 1, word_node_mapping = [],
     dynamic_nodes = True, nodes_mutable = True, wipe_node_state = True,
     best_node_match_only = True, intermediate_propagate = 0,
     sequence_representation = False, use_old_aggregate = False,
     train_with_graph = True, train_with_query = True, do_setup = True\<rparr>"

definition example_tf :: "nat transformations" where
  "example_tf = \<lparr>
     input_transformer_process = (\<lambda>ws. (map (\<lambda>_. [0]) ws, map (\<lambda>_. [[0], [0]]) ws)),
     node_state_updater_process = (\<lambda>g ir dm. (g, dm)),
     direct_reference_updater_process = (\<lambda>g r dm. (g, dm)),
     intermediate_propagator_process_multiple = (\<lambda>g n dm. (g, dm)),
     new_node_adder_get_candidates =
       (\<lambda>g ir k dm. (map (\<lambda>_. replicate k (1/2)) ir, map (\<lambda>_. replicate k [1/2, 1/2]) ir, dm)),
     edge_state_updater_process =
       (\<lambda>g ir dm. (g\<lparr>edge_strengths := map (map (map (map (\<lambda>_. 1/2)))) (edge_strengths g)\<rparr>, dm)),
     query_node_state_updater_process = (\<lambda>g ir dm. (g, dm)),
     query_direct_reference_updater_process = (\<lambda>g r dm. (g, dm)),
     final_propagator_process_multiple = (\<lambda>g n dm. (g, dm)),
     aggregator_process = (\<lambda>g dm. (map (\<lambda>_. [0]) (node_strengths g), dm)),
     aggregate_summarizer_process = (\<lambda>x dm. (map (\<lambda>_. [0]) x, dm)),
     output_processor_process = (\<lambda>a n. map (\<lambda>_. [[1/2, 1/2]]) a),
     output_processor_snap_to_best = (\<lambda>x. x),
     independent_best = (\<lambda>x. x),
     categorical_best = (\<lambda>v. v)\<rparr>"

definition example_dropout :: "nat dropout" where
  "example_dropout = \<lparr>iter_dropouts = [[0]], qnsu_dropout_masks = None,
     qdru_dropout_masks = None, fp_dropout_masks = None, agg_dropout_masks = None,
     aggsum_dropout_masks = None\<rparr>"

definition example_inputs :: inputs where
  "example_inputs = \<lparr>input_words = [[[1, 2]]], query_words = [[3]],
     correct_output = [[[1, 0]]], graph_num_new_nodes = [[1]],
     graph_new_node_strengths = [[[1]]], graph_new_node_ids = [[[[1, 0]]]],
     graph_new_edges = [[[[[1], [0]], [[0], [0]]]]]\<rparr>"

definition example_inputs2 :: inputs where
  "example_inputs2 = \<lparr>input_words = [[[1, 2]]], query_words = [[3]],
     correct_output = [[[1, 0]]], graph_num_new_nodes = [[0]],
     graph_new_node_strengths = [[[0]]], graph_new_node_ids = [[[[0, 1]]]],
     graph_new_edges = [[[[[0], [1]], [[1], [0]]]]]\<rparr>"







section \<open>Verification\<close>

subsection \<open>Permutations\<close>

lemma mset_remove_nth:
  "i < length xs \<Longrightarrow> add_mset (xs ! i) (mset (take i xs @ drop (Suc i) xs)) = mset xs"
proof -
  assume "i < length xs"
  then have "xs = take i xs @ xs ! i # drop (Suc i) xs"
    by (rule id_take_nth_drop)
  then have "mset xs = mset (take i xs @ xs ! i # drop (Suc i) xs)"
    by simp
  then show ?thesis by simp
qed

lemma perms_of_set:
  "length xs = n \<Longrightarrow> set (perms_of n xs) = {ys. mset ys = mset xs}"
proof (induction n arbitrary: xs)
  case 0
  then show ?case by auto
next
  case (Suc n)
  have len: "\<And>i. i < length xs \<Longrightarrow> length (take i xs @ drop (Suc i) xs) = n"
    using Suc.prems by auto
  show ?case
  proof (intro set_eqI iffI)
    fix ys assume "ys \<in> set (perms_of (Suc n) xs)"
    then obtain i zs where i: "i < length xs" and ys: "ys = xs ! i # zs"
      and zs: "zs \<in> set (perms_of n (take i xs @ drop (Suc i) xs))"
      by auto
    from zs Suc.IH [OF len [OF i]] have "mset zs = mset (take i xs @ drop (Suc i) xs)"
      by simp
    with ys mset_remove_nth [OF i] show "ys \<in> {ys. mset ys = mset xs}"
      by simp
  next
    fix ys assume "ys \<in> {ys. mset ys = mset xs}"
    then have m: "mset ys = mset xs" by simp
    then have "length ys = Suc n" using Suc.prems by (metis size_mset)
    then obtain y zs where ys: "ys = y # zs" by (cases ys) auto
    then have "y \<in> set xs" using m by (metis list.set_intros(1) mset_eq_setD)
    then obtain i where i: "i < length xs" and y: "xs ! i = y"
      by (auto simp: in_set_conv_nth)
    have "add_mset y (mset zs) = add_mset y (mset (take i xs @ drop (Suc i) xs))"
      using m ys mset_remove_nth [OF i] y by simp
    then have "mset zs = mset (take i xs @ drop (Suc i) xs)" by simp
    then have "zs \<in> set (perms_of n (take i xs @ drop (Suc i) xs))"
      using Suc.IH [OF len [OF i]] by simp
    then show "ys \<in> set (perms_of (Suc n) xs)"
      using i y ys by auto
  qed
qed



subsection \<open>Sums over zipped lists\<close>

lemma sum_list_map2:
  "length xs = length ys \<Longrightarrow> sum_list (map2 f xs ys) = (\<Sum>i<length xs. f (xs ! i) (ys ! i))"
proof -
  assume l: "length xs = length ys"
  have "sum_list (map2 f xs ys) = (\<Sum>i = 0..<length (map2 f xs ys). map2 f xs ys ! i)"
    by (rule sum_list_sum_nth)
  also have "\<dots> = (\<Sum>i = 0..<length xs. f (xs ! i) (ys ! i))"
    using l by (intro sum.cong) auto
  finally show ?thesis by (simp add: lessThan_atLeast0)
qed


subsection \<open>The permutation log-likelihoods computed by the source\<close>

lemma permutations_set: "set (permutations [0..<k]) = slot_permutations k"
  by (simp add: permutations_def slot_permutations_def perms_of_set)






lemma slot_permutations_finite: "finite (slot_permutations k)"
  by (metis permutations_set List.finite_set)


lemma slot_permutations_identity: "[0..<k] \<in> slot_permutations k"
  by (simp add: slot_permutations_def)








subsection \<open>Claims on the new-node matching loss\<close>





subsection \<open>The edge loss as a sum over indices\<close>

lemma sum_list_map_nth:
  "sum_list (map f xs) = (\<Sum>i<length xs. f (xs ! i))"
proof -
  have "sum_list (map f xs) = (\<Sum>i = 0..<length (map f xs). map f xs ! i)"
    by (rule sum_list_sum_nth)
  also have "\<dots> = (\<Sum>i = 0..<length xs. f (xs ! i))"
    by (intro sum.cong) auto
  finally show ?thesis by (simp add: lessThan_atLeast0)
qed

lemma sum_list_nested3:
  fixes xb :: tensor3
  shows "sum_list (map (\<lambda>row. sum_list (map sum_list row)) xb)
   = (\<Sum>i<length xb. \<Sum>j<length (xb ! i). \<Sum>t<length (xb ! i ! j). xb ! i ! j ! t)"
proof -
  have "sum_list (map (\<lambda>row. sum_list (map sum_list row)) xb)
      = (\<Sum>i<length xb. sum_list (map sum_list (xb ! i)))"
    by (rule sum_list_map_nth)
  also have "\<dots> = (\<Sum>i<length xb. \<Sum>j<length (xb ! i). sum_list (xb ! i ! j))"
    by (simp add: sum_list_map_nth)
  also have "\<dots> = (\<Sum>i<length xb. \<Sum>j<length (xb ! i). \<Sum>t<length (xb ! i ! j). xb ! i ! j ! t)"
  proof -
    have 1: "sum_list xs = (\<Sum>t<length xs. xs ! t)" for xs :: "real list"
      using sum_list_map_nth [of "\<lambda>x. x" xs] by simp
    show ?thesis by (intro sum.cong refl) (rule 1)
  qed
  finally show ?thesis .
qed

lemma edge_shapes_okD:
  assumes ok: "edge_shapes_ok n s es cr" and b: "b < length s"
  shows "length es = length s" "length cr = length s" "length (s ! b) = n"
    "length (es ! b) = n" "length (cr ! b) = n"
    "i < n \<Longrightarrow> length (es ! b ! i) = n"
    "i < n \<Longrightarrow> length (cr ! b ! i) = n"
    "i < n \<Longrightarrow> j < n \<Longrightarrow> length (cr ! b ! i ! j) = length (es ! b ! i ! j)"
proof -
  from ok have A: "list_all (\<lambda>s. length s = n) s"
    and B: "list_all2 (\<lambda>s e. length e = n \<and> list_all (\<lambda>row. length row = n) e) s es"
    and C: "list_all2 (list_all2 (list_all2 (\<lambda>c e. length c = length e))) cr es"
    by (simp_all add: edge_shapes_ok_def)
  show les: "length es = length s" using B by (simp add: list_all2_lengthD)
  show lcr: "length cr = length s" using C les by (simp add: list_all2_lengthD)
  show "length (s ! b) = n" using A b by (simp add: list_all_length)
  from B b have Bb: "length (es ! b) = n \<and> list_all (\<lambda>row. length row = n) (es ! b)"
    by (simp add: list_all2_conv_all_nth)
  then show leb: "length (es ! b) = n" by simp
  from C b lcr have Cb: "list_all2 (list_all2 (\<lambda>c e. length c = length e)) (cr ! b) (es ! b)"
    by (simp add: list_all2_conv_all_nth)
  then show lcb: "length (cr ! b) = n" using leb by (simp add: list_all2_lengthD)
  show lei: "length (es ! b ! i) = n" if "i < n" using Bb that by (simp add: list_all_length)
  have Ci: "list_all2 (\<lambda>c e. length c = length e) (cr ! b ! i) (es ! b ! i)" if "i < n"
    using Cb lcb that by (simp add: list_all2_conv_all_nth)
  show lci: "length (cr ! b ! i) = n" if "i < n"
    using Ci [OF that] lei [OF that] by (simp add: list_all2_lengthD)
  show "length (cr ! b ! i ! j) = length (es ! b ! i ! j)" if "i < n" "j < n"
    using Ci [OF that(1)] lci [OF that(1)] that(2) by (simp add: list_all2_conv_all_nth)
qed

lemma masked_edge_lls_nth:
  assumes ok: "edge_shapes_ok n s es cr" and b: "b < length s"
  shows "sum_list (map (\<lambda>row. sum_list (map sum_list row))
            (mask_dest s (mask_src s (edge_lls eps cr es)) ! b))
       = (\<Sum>i<n. \<Sum>j<n. \<Sum>t<length (es ! b ! i ! j).
            edge_ll_term eps (cr ! b ! i ! j ! t) (es ! b ! i ! j ! t) * s ! b ! i * s ! b ! j)"
proof -
  note sh = edge_shapes_okD [OF ok b]
  let ?M = "mask_dest s (mask_src s (edge_lls eps cr es)) ! b"
  have Mb: "?M = map (\<lambda>row. map2 (\<lambda>sj cell. map (\<lambda>v. v * sj) cell) (s ! b) row)
                   (map2 (\<lambda>si row. map (map (\<lambda>v. v * si)) row) (s ! b)
                      (map2 (map2 (map2 (\<lambda>c e. c * ln (e + eps) + (1 - c) * ln (1 - e + eps))))
                          (cr ! b) (es ! b)))"
    using b sh(1,2) by (simp add: mask_dest_def mask_src_def edge_lls_def)
  have l1: "length ?M = n" unfolding Mb using sh by simp
  have l2: "length (?M ! i) = n" if "i < n" for i
    unfolding Mb using sh that by simp
  have l3: "length (?M ! i ! j) = length (es ! b ! i ! j)" if "i < n" "j < n" for i j
    unfolding Mb using sh that by simp
  have v: "?M ! i ! j ! t = edge_ll_term eps (cr ! b ! i ! j ! t) (es ! b ! i ! j ! t) * s ! b ! i * s ! b ! j"
    if "i < n" "j < n" "t < length (es ! b ! i ! j)" for i j t
    unfolding Mb edge_ll_term_def using sh that by simp
  have "sum_list (map (\<lambda>row. sum_list (map sum_list row)) ?M)
      = (\<Sum>i<length ?M. \<Sum>j<length (?M ! i). \<Sum>t<length (?M ! i ! j). ?M ! i ! j ! t)"
    by (rule sum_list_nested3)
  also have "\<dots> = (\<Sum>i<n. \<Sum>j<n. \<Sum>t<length (es ! b ! i ! j).
            edge_ll_term eps (cr ! b ! i ! j ! t) (es ! b ! i ! j ! t) * s ! b ! i * s ! b ! j)"
    unfolding l1 by (intro sum.cong) (simp_all add: l2 l3 v)
  finally show ?thesis .
qed

lemma edge_shapes_ok_lengths:
  assumes "edge_shapes_ok n s es cr"
  shows "length es = length s" "length cr = length s"
proof -
  from assms have B: "list_all2 (\<lambda>s e. length e = n \<and> list_all (\<lambda>row. length row = n) e) s es"
    and C: "list_all2 (list_all2 (list_all2 (\<lambda>c e. length c = length e))) cr es"
    by (simp_all add: edge_shapes_ok_def)
  show "length es = length s" using B by (simp add: list_all2_lengthD)
  then show "length cr = length s" using C by (simp add: list_all2_lengthD)
qed

lemma crop_edges_nth:
  assumes "b < length ce" "length (crop_edges n ce ! b) = n" "i < n"
    "length (crop_edges n ce ! b ! i) = n" "j < n"
  shows "crop_edges n ce ! b ! i ! j = ce ! b ! i ! j"
  using assms by (simp add: crop_edges_def)

lemma edge_loss_index:
  assumes ok: "edge_inputs_ok g ce"
  shows "edge_loss eps g ce = Inr (map (masked_edge_cross_entropy eps g ce) [0..<n_batch g])"
proof -
  let ?n = "n_nodes g" and ?s = "node_strengths g" and ?es = "edge_strengths g"
  let ?cr = "crop_edges (n_nodes g) ce"
  from ok have ok': "edge_shapes_ok ?n ?s ?es ?cr" by (simp add: edge_inputs_ok_def)
  let ?M = "mask_dest ?s (mask_src ?s (edge_lls eps ?cr ?es))"
  have lenM: "length ?M = length ?s"
    using edge_shapes_ok_lengths [OF ok']
    by (simp add: mask_dest_def mask_src_def edge_lls_def)
  have "map uminus (sum_axes123 ?M) = map (masked_edge_cross_entropy eps g ce) [0..<n_batch g]"
  proof (rule nth_equalityI)
    show "length (map uminus (sum_axes123 ?M)) = length (map (masked_edge_cross_entropy eps g ce) [0..<n_batch g])"
      by (simp add: sum_axes123_def lenM n_batch_def)
  next
    fix b assume "b < length (map uminus (sum_axes123 ?M))"
    then have b: "b < length ?s" by (simp add: sum_axes123_def lenM)
    note sh = edge_shapes_okD [OF ok' b]
    have bce: "b < length ce" using sh(2) b by (simp add: crop_edges_def)
    have "map uminus (sum_axes123 ?M) ! b
        = - sum_list (map (\<lambda>row. sum_list (map sum_list row)) (?M ! b))"
      using b lenM by (simp add: sum_axes123_def)
    also have "\<dots> = - (\<Sum>i<?n. \<Sum>j<?n. \<Sum>t<length (?es ! b ! i ! j).
            edge_ll_term eps (?cr ! b ! i ! j ! t) (?es ! b ! i ! j ! t) * ?s ! b ! i * ?s ! b ! j)"
      by (simp only: masked_edge_lls_nth [OF ok' b])
    also have "\<dots> = (\<Sum>i<?n. \<Sum>j<?n. \<Sum>t<length (?es ! b ! i ! j).
            - (edge_ll_term eps (?cr ! b ! i ! j ! t) (?es ! b ! i ! j ! t) * ?s ! b ! i * ?s ! b ! j))"
      by (simp only: sum_negf)
    also have "\<dots> = masked_edge_cross_entropy eps g ce b"
      unfolding masked_edge_cross_entropy_def
    proof (intro sum.cong refl)
      fix i j t assume "i \<in> {..<?n}" "j \<in> {..<?n}"
      then have i: "i < ?n" and j: "j < ?n" by simp_all
      have "?cr ! b ! i ! j = ce ! b ! i ! j"
        using bce sh(5) i sh(7) [OF i] j by (rule crop_edges_nth)
      then show "- (edge_ll_term eps (?cr ! b ! i ! j ! t) (?es ! b ! i ! j ! t) * ?s ! b ! i * ?s ! b ! j)
        = smoothed_crossentropy eps (?es ! b ! i ! j ! t) (ce ! b ! i ! j ! t) * ?s ! b ! i * ?s ! b ! j"
        by (simp add: edge_ll_term_def smoothed_crossentropy_def algebra_simps)
    qed
    finally show "map uminus (sum_axes123 ?M) ! b = map (masked_edge_cross_entropy eps g ce) [0..<n_batch g] ! b"
      using b by (simp add: n_batch_def)
  qed
  then show ?thesis
    using ok by (simp add: edge_loss_def edge_inputs_ok_def Let_def)
qed



subsection \<open>Claims on the edge loss\<close>


text \<open>
  C8. In a supervised step, if one of the nodes \<open>i\<close>, \<open>j\<close> of batch element \<open>b\<close> has strength
  0, two ground-truth edge tensors that differ only between that pair give the same edge
  loss.
\<close>

theorem edge_loss_masking_noninterference:
  assumes ok: "edge_inputs_ok g ce" and ok': "edge_inputs_ok g ce'"
    and b: "b < n_batch g" and i: "i < n_nodes g" and j: "j < n_nodes g"
    and zero: "node_strengths g ! b ! i = 0 \<or> node_strengths g ! b ! j = 0"
    and same: "\<forall>b'<n_batch g. \<forall>i'<n_nodes g. \<forall>j'<n_nodes g.
                 (b', i', j') \<noteq> (b, i, j) \<longrightarrow> ce' ! b' ! i' ! j' = ce ! b' ! i' ! j'"
  shows "edge_loss eps g ce' = edge_loss eps g ce"
proof -
  have "masked_edge_cross_entropy eps g ce' b' = masked_edge_cross_entropy eps g ce b'"
    if b': "b' < n_batch g" for b'
    unfolding masked_edge_cross_entropy_def
  proof (intro sum.cong refl)
    fix i' j' t assume "i' \<in> {..<n_nodes g}" "j' \<in> {..<n_nodes g}"
    then have ij: "i' < n_nodes g" "j' < n_nodes g" by simp_all
    show "smoothed_crossentropy eps (edge_strengths g ! b' ! i' ! j' ! t) (ce' ! b' ! i' ! j' ! t)
            * node_strengths g ! b' ! i' * node_strengths g ! b' ! j'
        = smoothed_crossentropy eps (edge_strengths g ! b' ! i' ! j' ! t) (ce ! b' ! i' ! j' ! t)
            * node_strengths g ! b' ! i' * node_strengths g ! b' ! j'"
    proof (cases "(b', i', j') = (b, i, j)")
      case True
      with zero show ?thesis by auto
    next
      case False
      with same b' ij have "ce' ! b' ! i' ! j' = ce ! b' ! i' ! j'" by blast
      then show ?thesis by simp
    qed
  qed
  then have "map (masked_edge_cross_entropy eps g ce') [0..<n_batch g]
           = map (masked_edge_cross_entropy eps g ce) [0..<n_batch g]"
    by simp
  then show ?thesis
    by (simp add: edge_loss_index [OF ok] edge_loss_index [OF ok'])
qed

theorem edge_loss_masking_noninterference_witness:
  "edge_loss (1/10^8) example_gstate2 [[[[1], [1]], [[0], [0]]]]
   = edge_loss (1/10^8) example_gstate2 [[[[1], [0]], [[0], [0]]]]"
proof (rule edge_loss_masking_noninterference [where b = 0 and i = 0 and j = 1])
  show "edge_inputs_ok example_gstate2 [[[[1], [0]], [[0], [0]]]]"
    by (simp add: edge_inputs_ok_def edge_shapes_ok_def example_gstate2_def n_nodes_def
        crop_edges_def)
  show "edge_inputs_ok example_gstate2 [[[[1], [1]], [[0], [0]]]]"
    by (simp add: edge_inputs_ok_def edge_shapes_ok_def example_gstate2_def n_nodes_def
        crop_edges_def)
  show "0 < n_batch example_gstate2" by (simp add: n_batch_def example_gstate2_def)
  show "0 < n_nodes example_gstate2" by (simp add: n_nodes_def example_gstate2_def)
  show "1 < n_nodes example_gstate2" by (simp add: n_nodes_def example_gstate2_def)
  show "node_strengths example_gstate2 ! 0 ! 0 = 0 \<or> node_strengths example_gstate2 ! 0 ! 1 = 0"
    by (simp add: example_gstate2_def)
  show "\<forall>b'<n_batch example_gstate2. \<forall>i'<n_nodes example_gstate2. \<forall>j'<n_nodes example_gstate2.
          (b', i', j') \<noteq> (0, 0, 1) \<longrightarrow>
          [[[[1], [1]], [[0], [0 :: real]]]] ! b' ! i' ! j' = [[[[1], [0]], [[0], [0]]]] ! b' ! i' ! j'"
    by (simp add: n_batch_def n_nodes_def example_gstate2_def less_Suc_eq numeral_2_eq_2)
qed

subsection \<open>The aggregation as sums over nodes\<close>

lemma take_drop_concat:
  "\<forall>x \<in> set xss. length x = n \<Longrightarrow> b < length xss \<Longrightarrow> take n (drop (b * n) (concat xss)) = xss ! b"
proof (induction xss arbitrary: b)
  case Nil
  then show ?case by simp
next
  case (Cons x xss)
  show ?case
  proof (cases b)
    case 0
    with Cons.prems show ?thesis by simp
  next
    case (Suc b')
    with Cons.prems have "take n (drop (b' * n) (concat xss)) = xss ! b'"
      by (intro Cons.IH) auto
    with Suc Cons.prems show ?thesis by simp
  qed
qed

lemma gstate_okD:
  assumes "gstate_ok spec g" "bi < n_batch g"
  shows "length (node_strengths g ! bi) = n_nodes g"
    "length (node_ids g ! bi) = n_nodes g" "length (node_states g ! bi) = n_nodes g"
    "length (node_ids g) = n_batch g" "length (node_states g) = n_batch g"
  using assms by (auto simp: gstate_ok_def list_all_length n_batch_def)

lemma gstate_ok_rows:
  assumes "gstate_ok spec g"
  shows "\<forall>x \<in> set (node_ids g). length x = n_nodes g"
    "\<forall>x \<in> set (node_states g). length x = n_nodes g"
  using assms by (auto simp: gstate_ok_def list_all_iff)

lemma activations_nth:
  assumes ok: "gstate_ok spec g" and bi: "bi < n_batch g"
  shows "activations spec W b g ! bi = map (node_activation W b g bi) [0..<n_nodes g]"
proof -
  note d = gstate_okD [OF ok bi]
  let ?h = "\<lambda>(idv, stv). map2 (+) (dot_row (idv @ stv) W (length b)) b"
  have "activations spec W b g ! bi
      = take (n_nodes g) (drop (bi * n_nodes g)
          (map ?h (zip (concat (node_ids g)) (concat (node_states g)))))"
    using bi by (simp add: activations_def reshape3_def do_layer_def Let_def split_def comp_def)
  also have "\<dots> = map ?h (zip (take (n_nodes g) (drop (bi * n_nodes g) (concat (node_ids g))))
                              (take (n_nodes g) (drop (bi * n_nodes g) (concat (node_states g)))))"
    by (simp add: take_map drop_map take_zip drop_zip)
  also have "\<dots> = map ?h (zip (node_ids g ! bi) (node_states g ! bi))"
    using d bi gstate_ok_rows [OF ok] by (simp add: take_drop_concat)
  also have "\<dots> = map (node_activation W b g bi) [0..<n_nodes g]"
    using d by (intro nth_equalityI) (simp_all add: node_activation_def)
  finally show ?thesis .
qed

lemma activations_length:
  "length (activations spec W b g) = n_batch g"
  by (simp add: activations_def reshape3_def Let_def)

lemma attention_weights_nth:
  assumes ok: "gstate_ok spec g" and bi: "bi < n_batch g"
  shows "attention_weights eps spec W b g ! bi
       = map (\<lambda>j. exp (attention_logit eps W b g bi j)
                  / (\<Sum>m<n_nodes g. exp (attention_logit eps W b g bi m))) [0..<n_nodes g]"
proof -
  note d = gstate_okD [OF ok bi]
  let ?row = "map2 (+) (map (\<lambda>a. a ! 0) (activations spec W b g ! bi))
                 (map (\<lambda>s. ln (s + eps)) (node_strengths g ! bi))"
  have row: "?row = map (attention_logit eps W b g bi) [0..<n_nodes g]"
    using d by (intro nth_equalityI)
      (simp_all add: activations_nth [OF ok bi] attention_logit_def)
  have "attention_weights eps spec W b g ! bi
      = map (\<lambda>v. exp v / sum_list (map exp ?row)) ?row"
    using bi by (simp add: attention_weights_def softmax_def Let_def activations_length n_batch_def)
  also have "\<dots> = map (\<lambda>j. exp (attention_logit eps W b g bi j)
                  / (\<Sum>m<n_nodes g. exp (attention_logit eps W b g bi m))) [0..<n_nodes g]"
    unfolding row by (simp add: comp_def sum_list_map_nth [of _ "[0..<n_nodes g]"])
  finally show ?thesis .
qed

lemma attention_weights_length:
  assumes ok: "gstate_ok spec g"
  shows "length (attention_weights eps spec W b g) = n_batch g"
  by (simp add: attention_weights_def softmax_def Let_def activations_length n_batch_def)

lemma process_nth:
  assumes ok: "aggregate_shapes_ok rw spec W b g" and bi: "bi < n_batch g"
  shows "\<exists>res. process eps rw spec W b g = Inr res \<and> length res = n_batch g \<and>
           res ! bi = map (\<lambda>c. \<Sum>j<n_nodes g. attention_weights eps spec W b g ! bi ! j
                                   * tanh (node_activation W b g bi j ! (c + 1))) [0..<rw]"
proof -
  from ok have gok: "gstate_ok spec g" and lb: "length b = rw + 1"
    by (simp_all add: aggregate_shapes_ok_def)
  let ?sel = "attention_weights eps spec W b g"
  let ?reps = "map (map (\<lambda>a. map tanh (drop 1 a))) (activations spec W b g)"
  let ?res = "map2 (\<lambda>sel reps. map (\<lambda>c. sum_list (map2 (\<lambda>w r. w * r ! c) sel reps)) [0..<rw])
                ?sel ?reps"
  have eq: "process eps rw spec W b g = Inr ?res"
    using ok by (simp add: process_def Let_def)
  have len: "length ?res = n_batch g"
    by (simp add: attention_weights_length [OF gok] activations_length)
  have lsel: "length (?sel ! bi) = n_nodes g"
    by (simp add: attention_weights_nth [OF gok bi])
  have lact: "length (node_activation W b g bi j) = rw + 1" for j
    by (simp add: node_activation_def dot_row_def lb)
  have "?res ! bi = map (\<lambda>c. sum_list (map2 (\<lambda>w r. w * r ! c) (?sel ! bi)
                       (map (\<lambda>a. map tanh (drop 1 a)) (activations spec W b g ! bi)))) [0..<rw]"
    using bi by (simp add: attention_weights_length [OF gok] activations_length)
  also have "\<dots> = map (\<lambda>c. \<Sum>j<n_nodes g. ?sel ! bi ! j
                                   * tanh (node_activation W b g bi j ! (c + 1))) [0..<rw]"
  proof (rule map_cong [OF refl])
    fix c assume "c \<in> set [0..<rw]"
    then have c: "c < rw" by simp
    have "sum_list (map2 (\<lambda>w r. w * r ! c) (?sel ! bi)
                       (map (\<lambda>a. map tanh (drop 1 a)) (activations spec W b g ! bi)))
        = (\<Sum>j<length (?sel ! bi). ?sel ! bi ! j
              * map (\<lambda>a. map tanh (drop 1 a)) (activations spec W b g ! bi) ! j ! c)"
      by (rule sum_list_map2) (simp add: lsel activations_nth [OF gok bi])
    also have "\<dots> = (\<Sum>j<n_nodes g. ?sel ! bi ! j * tanh (node_activation W b g bi j ! (c + 1)))"
      unfolding lsel using c by (intro sum.cong refl) (simp add: activations_nth [OF gok bi] lact)
    finally show "sum_list (map2 (\<lambda>w r. w * r ! c) (?sel ! bi)
                       (map (\<lambda>a. map tanh (drop 1 a)) (activations spec W b g ! bi)))
       = (\<Sum>j<n_nodes g. ?sel ! bi ! j * tanh (node_activation W b g bi j ! (c + 1)))" .
  qed
  finally show ?thesis using eq len by blast
qed

lemma convex_deviation:
  fixes w t :: "nat \<Rightarrow> real"
  assumes nonneg: "\<forall>j<n. 0 \<le> w j" and one: "(\<Sum>j<n. w j) = 1"
    and bound: "\<forall>j<n. \<bar>t j\<bar> \<le> 1" and i: "i < n"
  shows "\<bar>(\<Sum>j<n. w j * t j) - t i\<bar> \<le> 2 * (1 - w i)"
proof -
  have "(\<Sum>j<n. w j * t j) - t i = (\<Sum>j<n. w j * t j) - (\<Sum>j<n. w j) * t i"
    by (simp add: one)
  also have "\<dots> = (\<Sum>j<n. w j * (t j - t i))"
    by (simp add: sum_distrib_right sum_subtractf right_diff_distrib)
  finally have "\<bar>(\<Sum>j<n. w j * t j) - t i\<bar> = \<bar>\<Sum>j<n. w j * (t j - t i)\<bar>"
    by simp
  also have "\<dots> \<le> (\<Sum>j<n. \<bar>w j * (t j - t i)\<bar>)"
    by (rule sum_abs)
  also have "\<dots> \<le> (\<Sum>j<n. if j = i then 0 else 2 * w j)"
  proof (rule sum_mono)
    fix j assume "j \<in> {..<n}"
    then have j: "j < n" by simp
    show "\<bar>w j * (t j - t i)\<bar> \<le> (if j = i then 0 else 2 * w j)"
    proof (cases "j = i")
      case True
      then show ?thesis by simp
    next
      case False
      from bound j i have "\<bar>t j\<bar> \<le> 1" "\<bar>t i\<bar> \<le> 1" by simp_all
      then have "\<bar>t j - t i\<bar> \<le> 2" by linarith
      moreover from nonneg j have "0 \<le> w j" by simp
      ultimately have "w j * \<bar>t j - t i\<bar> \<le> w j * 2"
        by (intro mult_left_mono)
      with \<open>0 \<le> w j\<close> False show ?thesis by (simp add: abs_mult)
    qed
  qed
  also have "\<dots> = (\<Sum>j<n. 2 * w j) - 2 * w i"
    using i by (simp add: sum.If_cases sum.remove [of "{..<n}" i] Diff_eq Int_commute
        flip: Collect_neg_eq) 
  also have "\<dots> = 2 * (1 - w i)"
    by (simp add: one flip: sum_distrib_left)
  finally show ?thesis .
qed

lemma attention_weights_entry:
  assumes ok: "gstate_ok spec g" and bi: "bi < n_batch g" and j: "j < n_nodes g"
  shows "attention_weights eps spec W b g ! bi ! j
       = exp (attention_logit eps W b g bi j)
           / (\<Sum>m<n_nodes g. exp (attention_logit eps W b g bi m))"
  using j by (simp add: attention_weights_nth [OF ok bi])

lemma attention_denominator_pos:
  fixes n :: nat
  assumes "0 < n"
  shows "0 < (\<Sum>m<n. exp (f m :: real))"
  by (rule sum_pos) (use assms in auto)

lemma attention_weights_sum:
  assumes ok: "gstate_ok spec g" and bi: "bi < n_batch g" and n: "0 < n_nodes g"
  shows "(\<Sum>j<n_nodes g. attention_weights eps spec W b g ! bi ! j) = 1"
proof -
  let ?Z = "\<Sum>m<n_nodes g. exp (attention_logit eps W b g bi m)"
  have Z: "0 < ?Z" using n by (rule attention_denominator_pos)
  have "(\<Sum>j<n_nodes g. attention_weights eps spec W b g ! bi ! j)
      = (\<Sum>j<n_nodes g. exp (attention_logit eps W b g bi j) / ?Z)"
    by (intro sum.cong refl) (simp add: attention_weights_entry [OF ok bi])
  also have "\<dots> = ?Z / ?Z"
    by (simp flip: sum_divide_distrib)
  also have "\<dots> = 1" using Z by simp
  finally show ?thesis .
qed

lemma attention_weights_sum_list:
  assumes ok: "gstate_ok spec g" and bi: "bi < n_batch g" and n: "0 < n_nodes g"
  shows "sum_list (attention_weights eps spec W b g ! bi) = 1"
proof -
  have "length (attention_weights eps spec W b g ! bi) = n_nodes g"
    by (simp add: attention_weights_nth [OF ok bi])
  then have "sum_list (attention_weights eps spec W b g ! bi)
      = (\<Sum>j<n_nodes g. attention_weights eps spec W b g ! bi ! j)"
    using sum_list_map_nth [of "\<lambda>x. x" "attention_weights eps spec W b g ! bi"] by simp
  then show ?thesis by (simp add: attention_weights_sum [OF ok bi n])
qed

lemma attention_weights_nonneg:
  assumes ok: "gstate_ok spec g" and bi: "bi < n_batch g" and j: "j < n_nodes g"
  shows "0 \<le> attention_weights eps spec W b g ! bi ! j"
  unfolding attention_weights_entry [OF ok bi j]
  by (intro divide_nonneg_nonneg sum_nonneg) simp_all

lemma one_hot_weight:
  assumes eps: "0 < eps" and ok: "gstate_ok spec g" and bi: "bi < n_batch g"
    and i: "i < n_nodes g" and hot: "one_hot_strengths g bi i"
  shows "attention_weights eps spec W b g ! bi ! i
       = (1 + eps) * exp (node_activation W b g bi i ! 0)
         / ((1 + eps) * exp (node_activation W b g bi i ! 0)
            + eps * (\<Sum>j\<in>{..<n_nodes g} - {i}. exp (node_activation W b g bi j ! 0)))"
proof -
  have e: "exp (attention_logit eps W b g bi j)
         = (if j = i then 1 + eps else eps) * exp (node_activation W b g bi j ! 0)"
    if "j < n_nodes g" for j
    using that hot eps by (simp add: attention_logit_def one_hot_strengths_def exp_add)
  have "(\<Sum>m<n_nodes g. exp (attention_logit eps W b g bi m))
      = (\<Sum>m<n_nodes g. (if m = i then 1 + eps else eps) * exp (node_activation W b g bi m ! 0))"
    by (intro sum.cong refl) (simp add: e)
  also have "\<dots> = (1 + eps) * exp (node_activation W b g bi i ! 0)
       + (\<Sum>m\<in>{..<n_nodes g} - {i}. (if m = i then 1 + eps else eps) * exp (node_activation W b g bi m ! 0))"
    using i by (subst sum.remove [of "{..<n_nodes g}" i]) simp_all
  also have "(\<Sum>m\<in>{..<n_nodes g} - {i}. (if m = i then 1 + eps else eps) * exp (node_activation W b g bi m ! 0))
       = eps * (\<Sum>m\<in>{..<n_nodes g} - {i}. exp (node_activation W b g bi m ! 0))"
    unfolding sum_distrib_left by (intro sum.cong refl) simp
  finally show ?thesis
    unfolding attention_weights_entry [OF ok bi i] using i by (simp add: e)
qed

lemma example3_ok: "aggregate_shapes_ok 1 example_spec example_W [0, 0] example_gstate3"
  by (simp add: aggregate_shapes_ok_def gstate_ok_def example_spec_def example_W_def
      example_gstate3_def n_nodes_def n_batch_def)

lemma example3_activation:
  "node_activation example_W [0, 0] example_gstate3 0 0 = [0, 0]"
  "node_activation example_W [0, 0] example_gstate3 0 (Suc 0) = [0, 1]"
  by (simp_all add: node_activation_def dot_row_def example_W_def example_gstate3_def
      numeral_2_eq_2)

lemma example3_value:
  assumes "0 < eps"
  shows "process eps 1 example_spec example_W [0, 0] example_gstate3
       = Inr [[eps * tanh 1 / (1 + 2 * eps)]]"
proof -
  have nb: "n_batch example_gstate3 = 1" and nn: "n_nodes example_gstate3 = 2"
    by (simp_all add: n_batch_def n_nodes_def example_gstate3_def)
  have gok: "gstate_ok example_spec example_gstate3"
    using example3_ok by (simp add: aggregate_shapes_ok_def)
  have bi: "0 < n_batch example_gstate3" by (simp add: nb)
  from process_nth [OF example3_ok bi, of eps] obtain res
    where res: "process eps 1 example_spec example_W [0, 0] example_gstate3 = Inr res"
      and len: "length res = n_batch example_gstate3"
      and val: "res ! 0 = map (\<lambda>c. \<Sum>j<n_nodes example_gstate3.
                  attention_weights eps example_spec example_W [0, 0] example_gstate3 ! 0 ! j
                  * tanh (node_activation example_W [0, 0] example_gstate3 0 j ! (c + 1))) [0..<1]"
    by blast
  have s0: "node_strengths example_gstate3 ! 0 ! 0 = 1"
    and s1: "node_strengths example_gstate3 ! 0 ! Suc 0 = 0"
    by (simp_all add: example_gstate3_def)
  have l0: "exp (attention_logit eps example_W [0, 0] example_gstate3 0 0) = 1 + eps"
    using assms by (simp add: attention_logit_def example3_activation s0)
  have l1: "exp (attention_logit eps example_W [0, 0] example_gstate3 0 (Suc 0)) = eps"
    using assms by (simp add: attention_logit_def example3_activation s1)
  have w1: "attention_weights eps example_spec example_W [0, 0] example_gstate3 ! 0 ! Suc 0
          = eps / (1 + 2 * eps)"
    by (subst attention_weights_entry [OF gok bi]) (simp_all add: nn numeral_2_eq_2 l0 l1)
  have "res ! 0 = [eps * tanh 1 / (1 + 2 * eps)]"
    unfolding val by (simp add: nn numeral_2_eq_2 example3_activation w1)
  moreover from len nb have "res = [res ! 0]"
    by (cases res) simp_all
  ultimately show ?thesis using res by simp
qed

subsection \<open>Claim on the aggregate representation\<close>

text \<open>
  C1, as stated, fails. With two nodes of strengths 1 and 0, equal activation logits and
  raw representations 0 and 1, the output is \<open>eps * tanh 1 / (1 + 2 * eps)\<close> and not
  \<open>tanh 0\<close>: the penalty \<open>ln (0 + eps)\<close> of the absent node is finite, so the node keeps
  a positive attention weight.
\<close>

theorem aggregate_one_hot_counterexample:
  "one_hot_strengths example_gstate3 0 0 \<and>
   process (1/10^8) 1 example_spec example_W [0, 0] example_gstate3
     \<noteq> Inr [map tanh (drop 1 (node_activation example_W [0, 0] example_gstate3 0 0))] \<and>
   process (1/10^8) 1 example_spec example_W [0, 0] example_gstate3
     = Inr [[(1/10^8) * tanh 1 / (1 + 2 * (1/10^8))]] \<and>
   map tanh (drop 1 (node_activation example_W [0, 0] example_gstate3 0 0)) = [0]"
proof -
  have "(0::real) < tanh 1" by (simp add: tanh_real_pos_iff)
  then have ne: "(1/10^8) * tanh 1 / (1 + 2 * (1/10^8)) \<noteq> (0::real)" by simp
  have val: "process (1/10^8) 1 example_spec example_W [0, 0] example_gstate3
       = Inr [[(1/10^8) * tanh 1 / (1 + 2 * (1/10^8))]]"
    by (rule example3_value) simp
  have hot: "one_hot_strengths example_gstate3 0 0"
    by (simp add: one_hot_strengths_def example_gstate3_def n_nodes_def less_Suc_eq)
  have claimed: "map tanh (drop 1 (node_activation example_W [0, 0] example_gstate3 0 0)) = [0]"
    by (simp add: example3_activation)
  from ne have "process (1/10^8) 1 example_spec example_W [0, 0] example_gstate3
     \<noteq> Inr [map tanh (drop 1 (node_activation example_W [0, 0] example_gstate3 0 0))]"
    unfolding val claimed by simp
  with hot val claimed show ?thesis by blast
qed

text \<open>
  C1, amended. For \<open>eps > 0\<close> and a graph state in which node \<open>i\<close> of a batch element has
  strength 1 and every other node strength 0: the attention weights of the batch element
  sum to 1; the weight of node \<open>i\<close> is
  \<open>(1 + eps) exp l\<^sub>i / ((1 + eps) exp l\<^sub>i + eps \<Sum>\<^bsub>j \<noteq> i\<^esub> exp l\<^sub>j)\<close> for the activation logits
  \<open>l\<close>; every component of the output differs from tanh of the node's raw candidate
  representation by at most twice the remaining weight \<open>1 - w\<^sub>i\<close>; and the two are equal
  when the node is the only node.
\<close>

theorem aggregate_one_hot:
  assumes eps: "0 < eps" and ok: "aggregate_shapes_ok rw spec W b g"
    and bi: "bi < n_batch g" and i: "i < n_nodes g" and hot: "one_hot_strengths g bi i"
  shows "\<exists>res. process eps rw spec W b g = Inr res \<and>
      sum_list (attention_weights eps spec W b g ! bi) = 1 \<and>
      attention_weights eps spec W b g ! bi ! i
        = (1 + eps) * exp (node_activation W b g bi i ! 0)
          / ((1 + eps) * exp (node_activation W b g bi i ! 0)
             + eps * (\<Sum>j\<in>{..<n_nodes g} - {i}. exp (node_activation W b g bi j ! 0))) \<and>
      (\<forall>c<rw. \<bar>res ! bi ! c - tanh (node_activation W b g bi i ! (c + 1))\<bar>
                 \<le> 2 * (1 - attention_weights eps spec W b g ! bi ! i)) \<and>
      (n_nodes g = 1 \<longrightarrow>
         (\<forall>c<rw. res ! bi ! c = tanh (node_activation W b g bi i ! (c + 1))))"
proof -
  from ok have gok: "gstate_ok spec g" by (simp add: aggregate_shapes_ok_def)
  let ?w = "\<lambda>j. attention_weights eps spec W b g ! bi ! j"
  let ?t = "\<lambda>c j. tanh (node_activation W b g bi j ! (c + 1))"
  from process_nth [OF ok bi, of eps] obtain res
    where res: "process eps rw spec W b g = Inr res"
      and val: "res ! bi = map (\<lambda>c. \<Sum>j<n_nodes g. ?w j * ?t c j) [0..<rw]"
    by blast
  have n: "0 < n_nodes g" using i by simp
  have s1: "sum_list (attention_weights eps spec W b g ! bi) = 1"
    using gok bi n by (rule attention_weights_sum_list)
  have wi: "?w i = (1 + eps) * exp (node_activation W b g bi i ! 0)
          / ((1 + eps) * exp (node_activation W b g bi i ! 0)
             + eps * (\<Sum>j\<in>{..<n_nodes g} - {i}. exp (node_activation W b g bi j ! 0)))"
    using eps gok bi i hot by (rule one_hot_weight)
  have dev: "\<bar>res ! bi ! c - ?t c i\<bar> \<le> 2 * (1 - ?w i)" if c: "c < rw" for c
  proof -
    have "\<bar>(\<Sum>j<n_nodes g. ?w j * ?t c j) - ?t c i\<bar> \<le> 2 * (1 - ?w i)"
    proof (rule convex_deviation)
      show "\<forall>j<n_nodes g. 0 \<le> ?w j"
        using attention_weights_nonneg [OF gok bi] by blast
      show "(\<Sum>j<n_nodes g. ?w j) = 1"
        using gok bi n by (rule attention_weights_sum)
      show "\<forall>j<n_nodes g. \<bar>?t c j\<bar> \<le> 1"
        using tanh_real_lt_1 tanh_real_gt_neg1 by (simp add: abs_le_iff less_imp_le minus_le_iff)
      show "i < n_nodes g" by (rule i)
    qed
    with c show ?thesis by (simp add: val)
  qed
  have single: "res ! bi ! c = ?t c i" if one: "n_nodes g = 1" and c: "c < rw" for c
  proof -
    from one i have empty: "{..<n_nodes g} - {i} = {}" by auto
    have "?w i = (1 + eps) * exp (node_activation W b g bi i ! 0)
               / ((1 + eps) * exp (node_activation W b g bi i ! 0) + eps * 0)"
      unfolding wi empty sum.empty ..
    also have "\<dots> = 1" using eps by simp
    finally have "?w i = 1" .
    with dev [OF c] show ?thesis by simp
  qed
  from res s1 wi dev single show ?thesis by blast
qed

theorem aggregate_one_hot_witness:
  "(\<exists>res. process (1/10^8) 1 example_spec example_W [0, 0] example_gstate3 = Inr res \<and>
          sum_list (attention_weights (1/10^8) example_spec example_W [0, 0]
                      example_gstate3 ! 0) = 1 \<and>
          attention_weights (1/10^8) example_spec example_W [0, 0] example_gstate3 ! 0 ! 0
            = (1 + 1/10^8) / (1 + 2 * (1/10^8)) \<and>
          \<bar>res ! 0 ! 0 - tanh 0\<bar> \<le> 2 * (1 - (1 + 1/10^8) / (1 + 2 * (1/10^8)))) \<and>
   (\<exists>res. process (1/10^8) 1 example_spec1 [[0, 1], [0, 0]] [0, 0] example_gstate = Inr res \<and>
          res ! 0 ! 0 = tanh 1)"
proof -
  have eps: "(0::real) < 1/10^8" by simp
  have two: "\<exists>res. process (1/10^8) 1 example_spec example_W [0, 0] example_gstate3 = Inr res \<and>
          sum_list (attention_weights (1/10^8) example_spec example_W [0, 0]
                      example_gstate3 ! 0) = 1 \<and>
          attention_weights (1/10^8) example_spec example_W [0, 0] example_gstate3 ! 0 ! 0
            = (1 + 1/10^8) / (1 + 2 * (1/10^8)) \<and>
          \<bar>res ! 0 ! 0 - tanh 0\<bar> \<le> 2 * (1 - (1 + 1/10^8) / (1 + 2 * (1/10^8)))"
  proof -
    let ?g = example_gstate3 and ?W = example_W and ?b = "[0, 0 :: real]"
    have nn: "n_nodes ?g = 2" and nb: "n_batch ?g = 1"
      by (simp_all add: n_nodes_def n_batch_def example_gstate3_def)
    have bi: "0 < n_batch ?g" by (simp add: nb)
    have i: "0 < n_nodes ?g" by (simp add: nn)
    have hot: "one_hot_strengths ?g 0 0"
      by (simp add: one_hot_strengths_def example_gstate3_def n_nodes_def less_Suc_eq)
    have others: "{..<n_nodes ?g} - {0} = {Suc 0}"
      unfolding nn by auto
    note inst = aggregate_one_hot [OF eps example3_ok bi i hot]
    from inst obtain res
      where res: "process (1/10^8) 1 example_spec ?W ?b ?g = Inr res"
        and s: "sum_list (attention_weights (1/10^8) example_spec ?W ?b ?g ! 0) = 1"
        and w: "attention_weights (1/10^8) example_spec ?W ?b ?g ! 0 ! 0
          = (1 + 1/10^8) * exp (node_activation ?W ?b ?g 0 0 ! 0)
            / ((1 + 1/10^8) * exp (node_activation ?W ?b ?g 0 0 ! 0)
               + 1/10^8 * (\<Sum>j\<in>{..<n_nodes ?g} - {0}. exp (node_activation ?W ?b ?g 0 j ! 0)))"
        and dev: "\<forall>c<1. \<bar>res ! 0 ! c - tanh (node_activation ?W ?b ?g 0 0 ! (c + 1))\<bar>
                 \<le> 2 * (1 - attention_weights (1/10^8) example_spec ?W ?b ?g ! 0 ! 0)"
      by (elim exE conjE)
    have w': "attention_weights (1/10^8) example_spec ?W ?b ?g ! 0 ! 0
          = (1 + 1/10^8) / (1 + 2 * (1/10^8))"
      unfolding w others by (simp add: example3_activation)
    from dev have "\<bar>res ! 0 ! 0 - tanh (node_activation ?W ?b ?g 0 0 ! (0 + 1))\<bar>
                 \<le> 2 * (1 - attention_weights (1/10^8) example_spec ?W ?b ?g ! 0 ! 0)"
      by blast
    then have "\<bar>res ! 0 ! 0 - tanh 0\<bar> \<le> 2 * (1 - (1 + 1/10^8) / (1 + 2 * (1/10^8)))"
      unfolding w' by (simp add: example3_activation)
    with res s w' show ?thesis by blast
  qed
  have single: "\<exists>res. process (1/10^8) 1 example_spec1 [[0, 1], [0, 0]] [0, 0] example_gstate
                  = Inr res \<and> res ! 0 ! 0 = tanh 1"
  proof -
    let ?W = "[[0, 1], [0, 0 :: real]]" and ?b = "[0, 0 :: real]"
    have ok: "aggregate_shapes_ok 1 example_spec1 ?W ?b example_gstate"
      by (simp add: aggregate_shapes_ok_def gstate_ok_def example_spec1_def example_gstate_def
          n_nodes_def n_batch_def)
    have bi: "0 < n_batch example_gstate" by (simp add: n_batch_def example_gstate_def)
    have i: "0 < n_nodes example_gstate" by (simp add: n_nodes_def example_gstate_def)
    have hot: "one_hot_strengths example_gstate 0 0"
      by (simp add: one_hot_strengths_def example_gstate_def n_nodes_def)
    have one: "n_nodes example_gstate = 1" by (simp add: n_nodes_def example_gstate_def)
    have act: "node_activation ?W ?b example_gstate 0 0 ! (0 + 1) = 1"
      by (simp add: node_activation_def dot_row_def example_gstate_def numeral_2_eq_2)
    from aggregate_one_hot [OF eps ok bi i hot] obtain res
      where res: "process (1/10^8) 1 example_spec1 ?W ?b example_gstate = Inr res"
        and single: "n_nodes example_gstate = 1 \<longrightarrow>
           (\<forall>c<1. res ! 0 ! c = tanh (node_activation ?W ?b example_gstate 0 0 ! (c + 1)))"
      by blast
    from single one have "res ! 0 ! 0 = tanh (node_activation ?W ?b example_gstate 0 0 ! (0 + 1))"
      by blast
    with act have "res ! 0 ! 0 = tanh 1" by simp
    with res show ?thesis by blast
  qed
  from two single show ?thesis by (rule conjI)
qed

subsection \<open>Claim on the constructor\<close>

lemma run_steps_assert_fails:
  assumes "CallSetup \<notin> set xs"
  shows "snd (run_steps ctor su NotMember (xs @ AssertOutputFormat # ys)) \<noteq> None
       \<and> SetupCalled \<notin> set (fst (run_steps ctor su NotMember (xs @ AssertOutputFormat # ys)))
       \<and> ((\<forall>c. ctor c) \<longrightarrow>
            snd (run_steps ctor su NotMember (xs @ AssertOutputFormat # ys))
            = Some AssertionError)"
  using assms
proof (induction xs)
  case Nil
  then show ?case by simp
next
  case (Cons x xs)
  then show ?case by (cases x) (auto split: prod.splits)
qed

lemma init_steps_query:
  assumes "train_with_query cfg"
  shows "\<exists>xs ys. init_steps cfg = xs @ AssertOutputFormat # ys \<and> CallSetup \<notin> set xs"
proof -
  let ?xs = "[Construct InputSequenceDirect]
     @ (if nodes_mutable cfg then [Construct NodeStateUpdate] else [])
     @ (if length (word_node_mapping cfg) > 0 then [Construct DirectReferenceUpdate] else [])
     @ (if intermediate_propagate cfg \<noteq> 0 then [Construct IntermediatePropagation] else [])
     @ (if dynamic_nodes cfg then [Construct NewNodesInform] else [])
     @ [Construct EdgeStateUpdate]
     @ [Construct QueryNodeStateUpdate]
          @ (if length (word_node_mapping cfg) > 0 then [Construct QueryDirectReferenceUpdate]
             else [])
          @ [Construct FinalPropagation,
             Construct (if use_old_aggregate cfg then AggregateRepresentationSoftmax
                        else AggregateRepresentation)]
          @ (if sequence_representation cfg then [Construct SequenceAggregateSummary] else [])"
  let ?ys = "(case output_format cfg of
               Member category \<Rightarrow> [Construct OutputCategory]
             | Member subset \<Rightarrow> [Construct OutputSet]
             | Member sequence \<Rightarrow> [Construct OutputSequence]
             | NotMember \<Rightarrow> [])
     @ (if do_setup cfg then [CallSetup] else [])"
  have "init_steps cfg = ?xs @ AssertOutputFormat # ?ys"
    using assms by (simp add: init_steps_def)
  moreover have "CallSetup \<notin> set ?xs" by simp
  ultimately show ?thesis by blast
qed

text \<open>A failure of \<^verbatim>\<open>setup\<close> is a failure of the constructor.\<close>

lemma init_setup_raises:
  "init (\<lambda>c. True) (\<lambda>cfg. None) (example_config\<lparr>new_nodes_per_iter := 0\<rparr>)
   = ([Constructed InputSequenceDirect, Constructed NodeStateUpdate, Constructed NewNodesInform,
       Constructed EdgeStateUpdate, SetupCalled], Some TypeError)"
  by (simp add: init_def init_steps_def setup_graphs_def example_config_def)

text \<open>
  C7, as stated, fails: with \<open>train_with_query = False\<close> the assertion is not reached; when
  no constructor of a transformation raises and Theano builds and compiles the graphs, the
  constructor returns for an \<^verbatim>\<open>output_format\<close> that is no member of the enumeration, after
  \<^verbatim>\<open>setup\<close> has built the graphs.
\<close>

theorem init_invalid_output_format_counterexample:
  "output_format example_config = NotMember
   \<and> snd (init (\<lambda>c. True) (\<lambda>cfg. None) example_config) = None
   \<and> SetupCalled \<in> set (fst (init (\<lambda>c. True) (\<lambda>cfg. None) example_config))"
  by (simp add: init_def init_steps_def setup_graphs_def example_config_def)

text \<open>
  C7, amended. For every invocation of the constructor with \<open>train_with_query\<close> enabled and
  an \<^verbatim>\<open>output_format\<close> that is no member of \<^verbatim>\<open>ModelOutputFormat\<close>, construction fails before
  \<^verbatim>\<open>setup\<close> is called to build any computation graph, whatever the other flags are and
  whatever \<^verbatim>\<open>setup\<close> would do; if no constructor of a transformation raises first, the
  failure is the assertion of line 132.
\<close>

theorem init_invalid_output_format:
  assumes "train_with_query cfg" and "output_format cfg = NotMember"
  shows "snd (init ctor compile cfg) \<noteq> None
       \<and> SetupCalled \<notin> set (fst (init ctor compile cfg))
       \<and> ((\<forall>c. ctor c) \<longrightarrow> snd (init ctor compile cfg) = Some AssertionError)"
proof -
  from init_steps_query [OF assms(1)] obtain xs ys
    where steps: "init_steps cfg = xs @ AssertOutputFormat # ys" "CallSetup \<notin> set xs"
    by blast
  note fails = run_steps_assert_fails [OF steps(2), of ctor "setup_graphs compile cfg" ys]
  then show ?thesis
    using steps(1) assms(2) by (simp add: init_def)
qed

theorem init_invalid_output_format_witness:
  "train_with_query (example_config\<lparr>train_with_query := True\<rparr>)
   \<and> output_format (example_config\<lparr>train_with_query := True\<rparr>) = NotMember
   \<and> snd (init (\<lambda>c. True) (\<lambda>cfg. None) (example_config\<lparr>train_with_query := True\<rparr>))
     = Some AssertionError
   \<and> SetupCalled \<notin> set (fst (init (\<lambda>c. True) (\<lambda>cfg. None)
                                  (example_config\<lparr>train_with_query := True\<rparr>)))"
  using init_invalid_output_format [of "example_config\<lparr>train_with_query := True\<rparr>"
      "\<lambda>c. True" "\<lambda>cfg. None"]
  by (simp add: example_config_def)

subsection \<open>Padding of the loop-carried graph state\<close>





lemma n_nodes_nth:
  assumes "gstate_ok spec g" "b < n_batch g"
  shows "length (node_strengths g ! b) = n_nodes g"
  using assms by (rule gstate_okD(1))





subsection \<open>The forward pass\<close>

lemma scan_steps_no_graph:
  "scan_steps cfg False ud dr prepped refs inp' = scan_steps cfg False ud dr prepped refs inp"
  by (simp add: scan_steps_def)

lemma graph_outs_no_graph:
  assumes "input_words inp' = input_words inp"
  shows "graph_outs eps cfg tf dr False snap ud inp' = graph_outs eps cfg tf dr False snap ud inp"
  unfolding graph_outs_def assms scan_steps_no_graph [of cfg ud dr _ _ inp' inp] ..

lemma build_no_graph:
  assumes "input_words inp' = input_words inp" "query_words inp' = query_words inp"
    "correct_output inp' = correct_output inp"
  shows "build eps cfg tf dr False snap ud inp' = build eps cfg tf dr False snap ud inp"
  unfolding build_def assms graph_outs_no_graph [OF assms(1)] ..

lemma graph_loss_dynamic:
  assumes "graph_loss cfg nb ns outs = Inr (g, info)" and "dynamic_nodes cfg"
  shows "\<exists>nls els. those (map o_node_loss outs) = Some nls \<and>
           those (map o_edge_loss outs) = Some els \<and>
           g = (reduced_loss nls nb + reduced_loss els nb) / real ns \<and>
           info = [(''node_loss'', reduced_loss nls nb), (''edge_loss'', reduced_loss els nb)]"
  using assms by (auto simp: graph_loss_def Let_def split: option.splits)

lemma graph_loss_static:
  assumes "graph_loss cfg nb ns outs = Inr (g, info)" and "\<not> dynamic_nodes cfg"
  shows "\<exists>els. those (map o_edge_loss outs) = Some els \<and>
           g = reduced_loss els nb / real ns \<and>
           info = [(''edge_loss'', reduced_loss els nb)]"
  using assms by (auto simp: graph_loss_def Let_def split: option.splits)

lemma build_parts:
  assumes "build eps cfg tf dr wcg snap ud inp = Inr (loss, out, info)"
  shows "\<exists>outs gp qp.
      graph_outs eps cfg tf dr wcg snap ud inp = Inr outs \<and>
      (if wcg then \<exists>g i. graph_loss cfg (batch_size inp) (sentence_count inp) outs = Inr (g, i)
                         \<and> gp = Some (g, i)
       else gp = None) \<and>
      (if train_with_query cfg then \<exists>q fo. qp = Some (q, fo) else qp = None) \<and>
      loss = full_loss gp qp \<and>
      info = (case gp of Some (_, i) \<Rightarrow> i | None \<Rightarrow> [])
             @ (case qp of Some (q, _) \<Rightarrow> [(''query_loss'', q)] | None \<Rightarrow> [])"
  using assms
  unfolding build_def Let_def batch_size_def sentence_count_def
  by (auto split: sum.splits if_splits simp: map_sum_def)

text \<open>The forward pass on the example, step by step.\<close>

lemma example_steps:
  "scan_steps example_train_config True True example_dropout [[[0]]] [[[[0], [0]]]] example_inputs
   = [\<lparr>s_input_repr = [[0]], s_ref_matrix = None,
       s_correct = Some \<lparr>c_num_new_nodes = [1], c_new_strengths = [[1]],
                         c_new_node_ids = [[[1, 0]]], c_edges = [[[[1], [0]], [[0], [0]]]]\<rparr>,
       s_dropout_masks = Some [0]\<rparr>]"
  by (simp add: scan_steps_def example_train_config_def example_dropout_def example_inputs_def)

lemma example_initial:
  "flatten_to_const_size example_spec (initial_gstate example_train_config 1) 2
   = Inr \<lparr>f_node_strengths = [[0, 0]], f_node_ids = [[[0, 0], [0, 0]]],
          f_node_states = [[[0], [0]]], f_edge_strengths = [[[[0], [0]], [[0], [0]]]],
          f_n_nodes = 0\<rparr>"
  by (simp add: flatten_to_const_size_def initial_gstate_def example_train_config_def
      create_empty_def n_nodes_def pad_to_def example_spec_def numeral_2_eq_2 Let_def)

lemma example_node_loss:
  "node_loss True (Suc 0) eps [[1/2]] [[[1/2, 1/2]]] [1] [[1]] [[[1, 0]]]
   = Inr [- (2 * ln (1/2 + eps))]"
  by (simp add: node_loss_def node_shapes_ok_def permutations_def index_axis1_def
      strength_ll_def ids_ll_def reduced_perm_lls_def)

lemma example_edge_loss:
  "edge_loss eps \<lparr>node_strengths = [[1]], node_ids = [[[1, 0]]], node_states = [[[0]]],
                   edge_strengths = [[[[1/2]]]]\<rparr> [[[[1], [0]], [[0], [0]]]]
   = Inr [- ln (1/2 + eps)]"
  by (simp add: edge_loss_def edge_shapes_ok_def n_nodes_def crop_edges_def edge_lls_def
      mask_src_def mask_dest_def sum_axes123_def)

lemma example_cfg:
  "graphspec example_train_config = example_spec"
  "new_nodes_per_iter example_train_config = Suc 0"
  "output_format example_train_config = Member category"
  "final_propagate example_train_config = Suc 0"
  "word_node_mapping example_train_config = []"
  "dynamic_nodes example_train_config" "nodes_mutable example_train_config"
  "wipe_node_state example_train_config" "best_node_match_only example_train_config"
  "intermediate_propagate example_train_config = 0"
  "\<not> sequence_representation example_train_config"
  "train_with_graph example_train_config" "train_with_query example_train_config"
  by (simp_all add: example_train_config_def)

lemma example_iter:
  "iter_fn eps example_train_config example_tf True False [[0]] None
     \<lparr>node_strengths = [[]], node_ids = [[]], node_states = [[]], edge_strengths = [[]]\<rparr>
     (Some \<lparr>c_num_new_nodes = [1], c_new_strengths = [[1]],
                         c_new_node_ids = [[[1, 0]]], c_edges = [[[[1], [0]], [[0], [0]]]]\<rparr>)
     (Some [0])
   = Inr (\<lparr>node_strengths = [[1]], node_ids = [[[1, 0]]], node_states = [[[0]]],
            edge_strengths = [[[[1]]]]\<rparr>,
          Some [- (2 * ln (1/2 + eps))], Some [- ln (1/2 + eps)])"
proof -
  have cand: "new_node_adder_get_candidates example_tf g [[0]] (Suc 0) dm
            = ([[1/2]], [[[1/2, 1/2]]], dm)" for g dm
    by (simp add: example_tf_def)
  have pnodes: "propose_nodes eps example_train_config example_tf True False [[0]]
     \<lparr>node_strengths = [[]], node_ids = [[]], node_states = [[]], edge_strengths = [[]]\<rparr>
     (Some \<lparr>c_num_new_nodes = [1], c_new_strengths = [[1]],
                         c_new_node_ids = [[[1, 0]]], c_edges = [[[[1], [0]], [[0], [0]]]]\<rparr>)
     (Some [0])
    = Inr (\<lparr>node_strengths = [[1]], node_ids = [[[1, 0]]], node_states = [[[0]]],
            edge_strengths = [[[[0]]]]\<rparr>, Some [- (2 * ln (1/2 + eps))], Some [0])"
    unfolding propose_nodes_def
    by (simp add: example_cfg cand example_node_loss with_additional_nodes_def
        example_spec_def Let_def)
  have upd: "edge_state_updater_process example_tf
        \<lparr>node_strengths = [[1]], node_ids = [[[1, 0]]], node_states = [[[0]]],
            edge_strengths = [[[[0]]]]\<rparr> [[0]] (Some [0])
      = (\<lparr>node_strengths = [[1]], node_ids = [[[1, 0]]], node_states = [[[0]]],
            edge_strengths = [[[[1/2]]]]\<rparr>, Some [0])"
    by (simp add: example_tf_def)
  have nsu: "node_state_updater_process example_tf g ir dm = (g, dm)" for g ir dm
    by (simp add: example_tf_def)
  show ?thesis
    unfolding iter_fn_def
    by (simp add: example_cfg nsu pnodes upd example_edge_loss n_nodes_def crop_edges_def)
qed

lemma example_graph_outs:
  "graph_outs eps example_train_config example_tf example_dropout True False True example_inputs
   = Inr [\<lparr>o_flat = \<lparr>f_node_strengths = [[1, 0]], f_node_ids = [[[1, 0], [0, 0]]],
                        f_node_states = [[[0], [0]]],
                        f_edge_strengths = [[[[1], [0]], [[0], [0]]]], f_n_nodes = Suc 0\<rparr>,
           o_node_loss = Some [- (2 * ln (1/2 + eps))],
           o_edge_loss = Some [- ln (1/2 + eps)]\<rparr>]"
proof -
  have inp: "input_words example_inputs = [[[1, 2]]]"
    by (simp add: example_inputs_def)
  have flat: "input_transformer_process example_tf [[1, 2]] = ([[0]], [[[0], [0]]])"
    by (simp add: example_tf_def)
  have pad: "pad_graph_size example_train_config (Suc 0) = 2"
    by (simp add: pad_graph_size_def example_cfg)
  have init: "flatten_to_const_size example_spec (initial_gstate example_train_config (Suc 0)) 2
     = Inr \<lparr>f_node_strengths = [[0, 0]], f_node_ids = [[[0, 0], [0, 0]]],
          f_node_states = [[[0], [0]]], f_edge_strengths = [[[[0], [0]], [[0], [0]]]],
          f_n_nodes = 0\<rparr>"
    using example_initial by simp
  have unfl: "unflatten_from_const_size
       \<lparr>f_node_strengths = [[0, 0]], f_node_ids = [[[0, 0], [0, 0]]],
          f_node_states = [[[0], [0]]], f_edge_strengths = [[[[0], [0]], [[0], [0]]]],
          f_n_nodes = 0\<rparr>
     = \<lparr>node_strengths = [[]], node_ids = [[]], node_states = [[]], edge_strengths = [[]]\<rparr>"
    by (simp add: unflatten_from_const_size_def)
  have fl: "flatten_to_const_size example_spec
       \<lparr>node_strengths = [[1]], node_ids = [[[1, 0]]], node_states = [[[0]]],
            edge_strengths = [[[[1]]]]\<rparr> 2
     = Inr \<lparr>f_node_strengths = [[1, 0]], f_node_ids = [[[1, 0], [0, 0]]],
                        f_node_states = [[[0], [0]]],
                        f_edge_strengths = [[[[1], [0]], [[0], [0]]]], f_n_nodes = Suc 0\<rparr>"
    by (simp add: flatten_to_const_size_def n_nodes_def pad_to_def example_spec_def
        numeral_2_eq_2 Let_def)
  have step: "scan_fn eps example_train_config example_tf True False 2
      \<lparr>s_input_repr = [[0]], s_ref_matrix = None,
       s_correct = Some \<lparr>c_num_new_nodes = [1], c_new_strengths = [[1]],
                         c_new_node_ids = [[[1, 0]]], c_edges = [[[[1], [0]], [[0], [0]]]]\<rparr>,
       s_dropout_masks = Some [0]\<rparr>
      \<lparr>f_node_strengths = [[0, 0]], f_node_ids = [[[0, 0], [0, 0]]],
          f_node_states = [[[0], [0]]], f_edge_strengths = [[[[0], [0]], [[0], [0]]]],
          f_n_nodes = 0\<rparr>
    = Inr \<lparr>o_flat = \<lparr>f_node_strengths = [[1, 0]], f_node_ids = [[[1, 0], [0, 0]]],
                        f_node_states = [[[0], [0]]],
                        f_edge_strengths = [[[[1], [0]], [[0], [0]]]], f_n_nodes = Suc 0\<rparr>,
           o_node_loss = Some [- (2 * ln (1/2 + eps))],
           o_edge_loss = Some [- ln (1/2 + eps)]\<rparr>"
    unfolding scan_fn_def
    by (simp add: unfl example_iter example_cfg fl)
  show ?thesis
    unfolding graph_outs_def
    by (simp add: inp flat reshape3_def pad example_cfg init example_steps step)
qed

lemma example_build:
  "build eps example_train_config example_tf example_dropout True False True example_inputs
   = Inr (- (3 * ln (1/2 + eps)) - ln (1/2),
          [[[1/2, 1/2]]],
          [(''node_loss'', - (2 * ln (1/2 + eps))), (''edge_loss'', - ln (1/2 + eps)),
           (''query_loss'', - ln (1/2))])"
proof -
  have inp: "input_words example_inputs = [[[1, 2]]]" "query_words example_inputs = [[3]]"
    "correct_output example_inputs = [[[1, 0]]]"
    by (simp_all add: example_inputs_def)
  have gl: "graph_loss example_train_config (Suc 0) (Suc 0)
      [\<lparr>o_flat = \<lparr>f_node_strengths = [[1, 0]], f_node_ids = [[[1, 0], [0, 0]]],
                        f_node_states = [[[0], [0]]],
                        f_edge_strengths = [[[[1], [0]], [[0], [0]]]], f_n_nodes = Suc 0\<rparr>,
           o_node_loss = Some [- (2 * ln (1/2 + eps))],
           o_edge_loss = Some [- ln (1/2 + eps)]\<rparr>]
    = Inr (- (2 * ln (1/2 + eps)) + - ln (1/2 + eps),
           [(''node_loss'', - (2 * ln (1/2 + eps))), (''edge_loss'', - ln (1/2 + eps))])"
    by (simp add: graph_loss_def example_cfg reduced_loss_def)
  have fg: "final_gstate example_train_config
      [\<lparr>o_flat = \<lparr>f_node_strengths = [[1, 0]], f_node_ids = [[[1, 0], [0, 0]]],
                        f_node_states = [[[0], [0]]],
                        f_edge_strengths = [[[[1], [0]], [[0], [0]]]], f_n_nodes = Suc 0\<rparr>,
           o_node_loss = Some [- (2 * ln (1/2 + eps))],
           o_edge_loss = Some [- ln (1/2 + eps)]\<rparr>]
    = Inr \<lparr>node_strengths = [[1]], node_ids = [[[1, 0]]], node_states = [[[0]]],
            edge_strengths = [[[[1]]]]\<rparr>"
    by (simp add: final_gstate_def example_cfg unflatten_from_const_size_def)
  have q: "input_transformer_process example_tf [[3]] = ([[0]], [[[0], [0]]])"
    by (simp add: example_tf_def)
  have qp: "query_phase example_train_config example_tf example_dropout False (Suc 0) (Suc 0)
      \<lparr>node_strengths = [[1]], node_ids = [[[1, 0]]], node_states = [[[0]]],
            edge_strengths = [[[[1]]]]\<rparr> [[0]] [[[0], [0]]] [[[1, 0]]]
    = Inr (- ln (1/2), [[[1/2, 1/2]]])"
    unfolding query_phase_def
    by (simp add: example_cfg example_tf_def example_dropout_def query_loss_sum_def
        categorical_crossentropy_def Let_def)
  show ?thesis
    unfolding build_def
    by (simp add: inp example_graph_outs gl fg q qp full_loss_def Let_def example_cfg)
qed

subsection \<open>Claims on the total loss\<close>

text \<open>
  C6. Whenever the forward pass of a training call returns, its loss is composed as
  follows. With graph and query supervision it is the graph loss plus the query loss
  reported in \<^verbatim>\<open>info\<close>; the graph loss is the node loss plus the edge loss, each the sum
  of the step losses over all steps and batch elements divided by the batch size, divided
  by the sentence count (without dynamic nodes there is no node loss and the edge loss
  stands alone). Without \<open>train_with_graph\<close> the graph term is absent, without
  \<open>train_with_query\<close> the query term is absent.
\<close>

theorem total_loss_composition:
  assumes "build eps cfg tf dr (train_with_graph cfg) False True inp = Inr (loss, out, info)"
  shows "\<exists>outs els q.
      graph_outs eps cfg tf dr (train_with_graph cfg) False True inp = Inr outs
    \<and> (train_with_graph cfg \<longrightarrow>
         those (map o_edge_loss outs) = Some els
         \<and> map_of info ''edge_loss'' = Some (reduced_loss els (batch_size inp)))
    \<and> (train_with_query cfg \<longrightarrow> map_of info ''query_loss'' = Some q)
    \<and> (train_with_graph cfg \<and> dynamic_nodes cfg \<longrightarrow>
         (\<exists>nls. those (map o_node_loss outs) = Some nls
            \<and> map_of info ''node_loss'' = Some (reduced_loss nls (batch_size inp))
            \<and> loss = (reduced_loss nls (batch_size inp) + reduced_loss els (batch_size inp))
                        / real (sentence_count inp)
                     + (if train_with_query cfg then q else 0)))
    \<and> (train_with_graph cfg \<and> \<not> dynamic_nodes cfg \<longrightarrow>
         loss = reduced_loss els (batch_size inp) / real (sentence_count inp)
                + (if train_with_query cfg then q else 0))
    \<and> (\<not> train_with_graph cfg \<longrightarrow> loss = (if train_with_query cfg then q else 0))"
proof -
  from build_parts [OF assms] obtain outs gp qp where
    outs: "graph_outs eps cfg tf dr (train_with_graph cfg) False True inp = Inr outs"
    and gp: "if train_with_graph cfg
             then \<exists>g i. graph_loss cfg (batch_size inp) (sentence_count inp) outs = Inr (g, i)
                         \<and> gp = Some (g, i)
             else gp = None"
    and qp: "if train_with_query cfg then \<exists>q fo. qp = Some (q, fo) else qp = None"
    and loss: "loss = full_loss gp qp"
    and info: "info = (case gp of Some (_, i) \<Rightarrow> i | None \<Rightarrow> [])
             @ (case qp of Some (q, _) \<Rightarrow> [(''query_loss'', q)] | None \<Rightarrow> [])"
    by blast
  obtain q where q: "train_with_query cfg \<longrightarrow> (\<exists>fo. qp = Some (q, fo))"
    using qp by (cases "train_with_query cfg") auto
  have qn: "\<not> train_with_query cfg \<longrightarrow> qp = None"
    using qp by simp
  show ?thesis
  proof (cases "train_with_graph cfg")
    case False
    with gp have "gp = None" by simp
    with False outs q qn loss info show ?thesis
      by (cases "train_with_query cfg") (auto simp: full_loss_def)
  next
    case True
    with gp obtain g i where
      gl: "graph_loss cfg (batch_size inp) (sentence_count inp) outs = Inr (g, i)"
      and gpe: "gp = Some (g, i)"
      by auto
    show ?thesis
    proof (cases "dynamic_nodes cfg")
      case dyn: True
      from graph_loss_dynamic [OF gl dyn] obtain nls els where
        "those (map o_node_loss outs) = Some nls" "those (map o_edge_loss outs) = Some els"
        "g = (reduced_loss nls (batch_size inp) + reduced_loss els (batch_size inp))
               / real (sentence_count inp)"
        "i = [(''node_loss'', reduced_loss nls (batch_size inp)),
              (''edge_loss'', reduced_loss els (batch_size inp))]"
        by blast
      with True dyn outs q qn loss info gpe show ?thesis
        by (cases "train_with_query cfg") (auto simp: full_loss_def)
    next
      case stat: False
      from graph_loss_static [OF gl stat] obtain els where
        "those (map o_edge_loss outs) = Some els"
        "g = reduced_loss els (batch_size inp) / real (sentence_count inp)"
        "i = [(''edge_loss'', reduced_loss els (batch_size inp))]"
        by blast
      with True stat outs q qn loss info gpe show ?thesis
        by (cases "train_with_query cfg") (auto simp: full_loss_def)
    qed
  qed
qed

theorem total_loss_composition_witness:
  "build (1/10^8) example_train_config example_tf example_dropout
     (train_with_graph example_train_config) False True example_inputs
   = Inr (- (3 * ln (1/2 + 1/10^8)) - ln (1/2), [[[1/2, 1/2]]],
          [(''node_loss'', - (2 * ln (1/2 + 1/10^8))), (''edge_loss'', - ln (1/2 + 1/10^8)),
           (''query_loss'', - ln (1/2))])
   \<and> (\<exists>outs els nls q.
        graph_outs (1/10^8) example_train_config example_tf example_dropout
          (train_with_graph example_train_config) False True example_inputs = Inr outs
      \<and> those (map o_edge_loss outs) = Some els
      \<and> those (map o_node_loss outs) = Some nls
      \<and> - (3 * ln (1/2 + 1/10^8)) - ln (1/2)
          = (reduced_loss nls (batch_size example_inputs)
             + reduced_loss els (batch_size example_inputs))
              / real (sentence_count example_inputs) + q)"
proof -
  let ?info = "[(''node_loss'', - (2 * ln (1/2 + 1/10^8 :: real))),
               (''edge_loss'', - ln (1/2 + 1/10^8)), (''query_loss'', - ln (1/2))]"
  have h: "build (1/10^8) example_train_config example_tf example_dropout
     (train_with_graph example_train_config) False True example_inputs
   = Inr (- (3 * ln (1/2 + 1/10^8)) - ln (1/2), [[[1/2, 1/2]]], ?info)"
    using example_build [of "1/10^8"] by (simp add: example_cfg)
  have twg: "train_with_graph example_train_config" and dyn: "dynamic_nodes example_train_config"
    and twq: "train_with_query example_train_config"
    by (simp_all add: example_cfg)
  from total_loss_composition [OF h] obtain outs els q where
    1: "graph_outs (1/10^8) example_train_config example_tf example_dropout
          (train_with_graph example_train_config) False True example_inputs = Inr outs"
    and 2: "train_with_graph example_train_config \<longrightarrow>
         those (map o_edge_loss outs) = Some els
         \<and> map_of ?info ''edge_loss'' = Some (reduced_loss els (batch_size example_inputs))"
    and 3: "train_with_graph example_train_config \<and> dynamic_nodes example_train_config \<longrightarrow>
         (\<exists>nls. those (map o_node_loss outs) = Some nls
            \<and> map_of ?info ''node_loss'' = Some (reduced_loss nls (batch_size example_inputs))
            \<and> - (3 * ln (1/2 + 1/10^8)) - ln (1/2)
                = (reduced_loss nls (batch_size example_inputs)
                   + reduced_loss els (batch_size example_inputs))
                    / real (sentence_count example_inputs)
                  + (if train_with_query example_train_config then q else 0))"
    by blast
  from 2 twg have e: "those (map o_edge_loss outs) = Some els" by blast
  from 3 twg dyn obtain nls where n: "those (map o_node_loss outs) = Some nls"
    and l: "- (3 * ln (1/2 + 1/10^8)) - ln (1/2)
                = (reduced_loss nls (batch_size example_inputs)
                   + reduced_loss els (batch_size example_inputs))
                    / real (sentence_count example_inputs)
                  + (if train_with_query example_train_config then q else 0)"
    by blast
  from l twq have "- (3 * ln (1/2 + 1/10^8)) - ln (1/2)
                = (reduced_loss nls (batch_size example_inputs)
                   + reduced_loss els (batch_size example_inputs))
                    / real (sentence_count example_inputs) + q"
    by simp
  with h 1 e n show ?thesis by blast
qed

text \<open>
  C10. With \<open>train_with_graph = False\<close>, two calls of \<^verbatim>\<open>train\<close> that differ only in the four
  graph ground-truth arguments (and draw the same dropout masks) return the same loss and
  \<^verbatim>\<open>info\<close> and make the same parameter update.
\<close>

theorem train_ignores_graph_inputs:
  assumes "\<not> train_with_graph cfg"
    and "input_words inp' = input_words inp" and "query_words inp' = query_words inp"
    and "correct_output inp' = correct_output inp"
  shows "train optimizer eps cfg tf dr inp' = train optimizer eps cfg tf dr inp"
proof -
  from assms(1) have off: "train_with_graph cfg = False" by simp
  show ?thesis
    unfolding train_def off build_no_graph [OF assms(2-4)] ..
qed

theorem train_ignores_graph_inputs_witness:
  "train (\<lambda>L tf. tf) (1/10^8) (example_train_config\<lparr>train_with_graph := False\<rparr>)
     example_tf example_dropout example_inputs2
   = train (\<lambda>L tf. tf) (1/10^8) (example_train_config\<lparr>train_with_graph := False\<rparr>)
       example_tf example_dropout example_inputs"
  by (rule train_ignores_graph_inputs)
     (simp_all add: example_inputs_def example_inputs2_def)

subsection \<open>The outputs of the scan\<close>








subsection \<open>Claim on the reported edge loss\<close>




subsection \<open>The padded states of the scan and the aggregation\<close>













subsection \<open>Claim on the padding\<close>




end
